theory Spec2Isabelle
  imports Complex_Main
begin

section \<open>Shared Python primitives\<close>

text \<open>
  Texts are lists of 8-bit characters, read as the code points U+0000 to U+00FF.
  \<open>isspace\<close> is Python's \<^verbatim>\<open>str.isspace\<close> on that range (it is also what \<^verbatim>\<open>\s\<close> matches in
  a \<^verbatim>\<open>str\<close> pattern): TAB, LF, VT, FF, CR, the separators 0x1C to 0x1F, SPACE, NEL (0x85) and
  NBSP (0xA0).
\<close>

definition isspace :: "char \<Rightarrow> bool" where
  "isspace c = (of_char c \<in> {9, 10, 11, 12, 13, 28, 29, 30, 31, 32, 133, 160 :: nat})"

text \<open>\<^verbatim>\<open>s.strip()\<close>: whitespace removed at both ends.\<close>

definition strip :: "string \<Rightarrow> string" where
  "strip s = rev (dropWhile isspace (rev (dropWhile isspace s)))"

section \<open>main.py: the ingestion run\<close>

text \<open>
  Dates are day numbers. The library calls of \<^verbatim>\<open>main.py\<close> are parameters of the model:
  the clock (\<^verbatim>\<open>datetime.now().date()\<close>), \<^verbatim>\<open>dateutil.parser.parse(s).date()\<close> (\<open>None\<close> when
  it raises), \<^verbatim>\<open>date.strftime("%Y-%m-%d")\<close>, and \<^verbatim>\<open>arxivscraper.Scraper(...).scrape()\<close>
  (\<open>None\<close> when it raises). \<open>'p\<close> is the type of one raw paper record.
\<close>

type_synonym date = int

record 'p scraper_env =
  now_date :: date
  parse_date :: "string \<Rightarrow> date option"
  strftime :: "date \<Rightarrow> string"
  scrape :: "string \<Rightarrow> string \<Rightarrow> string \<Rightarrow> 'p list option"

definition CATEGORIES :: "string list" where
  "CATEGORIES = [''cs'', ''eess'', ''stat'']"

definition MAX_DAYS :: int where
  "MAX_DAYS = 7"

text \<open>
  The files the run touches: \<^verbatim>\<open>last_update.txt\<close>, \<^verbatim>\<open>results/arxiv_papers.csv\<close> and
  \<^verbatim>\<open>results/arxiv_papers.json\<close> (\<open>None\<close>: the file does not exist), and the log of the file
  writes in the order they happen.
\<close>

datatype 'p file_write =
    WriteCsv "'p list"
  | WriteJson "'p list"
  | WriteLastUpdate string

record 'p files =
  last_update_file :: "string option"
  csv_file :: "'p list option"
  json_file :: "'p list option"
  writes :: "'p file_write list"

text \<open>
  The date the watermark file holds: \<open>None\<close> when the file is absent or
  \<^verbatim>\<open>parser.parse\<close> raises on its stripped content.
\<close>

definition watermark :: "'p scraper_env \<Rightarrow> 'p files \<Rightarrow> date option" where
  "watermark env fs =
     (case last_update_file fs of
        None \<Rightarrow> None
      | Some s \<Rightarrow> parse_date env (strip s))"

definition get_date_range :: "'p scraper_env \<Rightarrow> 'p files \<Rightarrow> string \<times> string" where
  "get_date_range env fs =
     (let today = now_date env;
          last_update =
            (case last_update_file fs of
               Some s \<Rightarrow>
                 (case parse_date env (strip s) of
                    Some d \<Rightarrow> d
                  | None \<Rightarrow> today - MAX_DAYS)
             | None \<Rightarrow> today - MAX_DAYS);
          from_date = max last_update (today - MAX_DAYS)
      in (strftime env from_date, strftime env today))"

text \<open>\<^verbatim>\<open>scrape_arxiv\<close>: an exception of the scraper is logged and gives the empty list.\<close>

definition scrape_arxiv :: "'p scraper_env \<Rightarrow> string \<Rightarrow> string \<Rightarrow> string \<Rightarrow> 'p list" where
  "scrape_arxiv env category date_from date_until =
     (case scrape env category date_from date_until of
        Some papers \<Rightarrow> papers
      | None \<Rightarrow> [])"

text \<open>\<^verbatim>\<open>save_results\<close>: returns at once on an empty list, else writes the CSV, then the JSON.\<close>

definition save_results :: "'p list \<Rightarrow> 'p files \<Rightarrow> 'p files" where
  "save_results all_papers fs =
     (if all_papers = [] then fs
      else fs\<lparr>csv_file := Some all_papers,
               json_file := Some all_papers,
               writes := writes fs @ [WriteCsv all_papers, WriteJson all_papers]\<rparr>)"

definition update_last_update :: "string \<Rightarrow> 'p files \<Rightarrow> 'p files" where
  "update_last_update d fs =
     fs\<lparr>last_update_file := Some d, writes := writes fs @ [WriteLastUpdate d]\<rparr>"

text \<open>The papers of all categories, concatenated in the order of \<open>CATEGORIES\<close>.\<close>

definition scrape_all :: "'p scraper_env \<Rightarrow> string \<Rightarrow> string \<Rightarrow> 'p list" where
  "scrape_all env date_from date_until =
     concat (map (\<lambda>category. scrape_arxiv env category date_from date_until) CATEGORIES)"

definition main :: "'p scraper_env \<Rightarrow> 'p files \<Rightarrow> 'p files" where
  "main env fs =
     (let (date_from, date_until) = get_date_range env fs;
          all_papers = scrape_all env date_from date_until;
          fs1 = save_results all_papers fs
      in update_last_update date_until fs1)"

text \<open>Concrete parameters used to run the model: dates are written as their day number in unary.\<close>

definition unary_date_env :: "date \<Rightarrow> (string \<Rightarrow> string \<Rightarrow> string \<Rightarrow> nat list option) \<Rightarrow> nat scraper_env" where
  "unary_date_env today sc =
     \<lparr>now_date = today,
      parse_date = (\<lambda>s. if s \<noteq> [] \<and> list_all (\<lambda>c. c = CHR ''d'') s then Some (int (length s)) else None),
      strftime = (\<lambda>d. replicate (nat d) CHR ''d''),
      scrape = sc\<rparr>"

text \<open>A scraper whose every call raises, and one that returns two records for \<^verbatim>\<open>cs\<close> only.\<close>

definition no_scraper :: "string \<Rightarrow> string \<Rightarrow> string \<Rightarrow> nat list option" where
  "no_scraper category date_from date_until = None"

definition cs_scraper :: "string \<Rightarrow> string \<Rightarrow> string \<Rightarrow> nat list option" where
  "cs_scraper category date_from date_until = (if category = ''cs'' then Some [1, 2] else Some [])"

definition no_files :: "nat files" where
  "no_files = \<lparr>last_update_file = None, csv_file = None, json_file = None, writes = []\<rparr>"

section \<open>evaluator.py: scoring one abstract\<close>

subsection \<open>Python numbers\<close>

text \<open>
  A Python float is a finite value, an infinity or NaN. Finite values are kept as exact reals
  (rounding to the nearest double is not modelled). An \<^verbatim>\<open>int\<close> that takes part in a comparison
  with a float is the finite value of the same magnitude.
\<close>

datatype pyfloat = Fin real | PosInf | NegInf | NaN

text \<open>\<^verbatim>\<open>a < b\<close>: false whenever one side is NaN.\<close>

fun py_less :: "pyfloat \<Rightarrow> pyfloat \<Rightarrow> bool" where
  "py_less NaN b = False"
| "py_less a NaN = False"
| "py_less (Fin a) (Fin b) = (a < b)"
| "py_less (Fin a) PosInf = True"
| "py_less (Fin a) NegInf = False"
| "py_less NegInf NegInf = False"
| "py_less NegInf b = True"
| "py_less PosInf b = False"

text \<open>
  The builtins \<^verbatim>\<open>min(a, b)\<close> and \<^verbatim>\<open>max(a, b)\<close> keep the first argument unless the second is
  strictly smaller (\<^verbatim>\<open>b < a\<close>), respectively strictly larger (\<^verbatim>\<open>b > a\<close>).
\<close>

definition py_min :: "pyfloat \<Rightarrow> pyfloat \<Rightarrow> pyfloat" where
  "py_min a b = (if py_less b a then b else a)"

definition py_max :: "pyfloat \<Rightarrow> pyfloat \<Rightarrow> pyfloat" where
  "py_max a b = (if py_less a b then b else a)"

text \<open>\<^verbatim>\<open>max(1, min(10, score))\<close>\<close>

definition clamp :: "pyfloat \<Rightarrow> pyfloat" where
  "clamp score = py_max (Fin 1) (py_min (Fin 10) score)"

subsection \<open>Values decoded by json.loads\<close>

text \<open>An object is the list of the items of the decoded \<^verbatim>\<open>dict\<close>, looked up by key.\<close>

datatype json =
    JNull
  | JBool bool
  | JInt int
  | JFloat pyfloat
  | JStr string
  | JArr "json list"
  | JObj "(string \<times> json) list"

datatype exn =
    CallError string
  | LoadsError string
  | AttributeError
  | TypeError
  | ValueError
  | OverflowError

text \<open>
  What \<^verbatim>\<open>json.loads\<close> does with a text: a decoded value, \<^verbatim>\<open>JSONDecodeError\<close>, or another
  exception (the text names it).
\<close>

datatype loads_result = Decoded json | JSONDecodeError | LoadsRaised string

text \<open>
  The library functions that the evaluator calls are parameters: \<^verbatim>\<open>json.loads\<close>, \<^verbatim>\<open>float\<close> on
  a \<^verbatim>\<open>str\<close> (\<open>None\<close>: it raises \<^verbatim>\<open>ValueError\<close>), \<^verbatim>\<open>str\<close> on an exception, and the two
  pandas assignments \<^verbatim>\<open>df.at[idx, 'score'] = s\<close> and \<^verbatim>\<open>df.at[idx, 'reasoning'] = v\<close> that store
  an annotation (\<open>None\<close>: both values are stored; else the exception raised, as \<^verbatim>\<open>ValueError\<close>
  is for a list \<open>v\<close>).
\<close>

record eval_env =
  json_loads :: "string \<Rightarrow> loads_result"
  float_str :: "string \<Rightarrow> pyfloat option"
  str_exn :: "exn \<Rightarrow> string"
  store_error :: "pyfloat \<Rightarrow> json \<Rightarrow> exn option"

text \<open>
  \<^verbatim>\<open>float(v)\<close> on a decoded value. \<^verbatim>\<open>None\<close>, lists and dicts raise \<^verbatim>\<open>TypeError\<close>; an \<^verbatim>\<open>int\<close>
  whose nearest double would be infinite raises \<^verbatim>\<open>OverflowError\<close>.
\<close>

fun py_float :: "eval_env \<Rightarrow> json \<Rightarrow> exn + pyfloat" where
  "py_float env JNull = Inl TypeError"
| "py_float env (JBool b) = Inr (Fin (if b then 1 else 0))"
| "py_float env (JInt i) =
     (if \<bar>i\<bar> < 2 ^ 1024 - 2 ^ 970 then Inr (Fin (of_int i)) else Inl OverflowError)"
| "py_float env (JFloat x) = Inr x"
| "py_float env (JStr s) = (case float_str env s of Some x \<Rightarrow> Inr x | None \<Rightarrow> Inl ValueError)"
| "py_float env (JArr vs) = Inl TypeError"
| "py_float env (JObj kvs) = Inl TypeError"

text \<open>The dict that \<^verbatim>\<open>evaluate_abstract\<close> returns.\<close>

record annotation =
  score :: pyfloat
  reasoning :: json

subsection \<open>The two regular expressions of the fallback\<close>

text \<open>
  A matcher maps the text at the current position to the texts that may remain after the
  match, in the order in which Python's backtracking matcher tries them; the match that
  \<^verbatim>\<open>re\<close> reports is the first one of the whole pattern.
\<close>

definition lower :: "char \<Rightarrow> char" where
  "lower c =
     (case map_of (zip ''ABCDEFGHIJKLMNOPQRSTUVWXYZ'' ''abcdefghijklmnopqrstuvwxyz'') c of
        Some l \<Rightarrow> l
      | None \<Rightarrow> c)"

definition isdigit :: "char \<Rightarrow> bool" where
  "isdigit c = (c \<in> set ''0123456789'')"

definition isquote :: "char \<Rightarrow> bool" where
  "isquote c = (c = CHR 0x22 \<or> c = CHR 0x27)"

text \<open>A literal under \<^verbatim>\<open>re.IGNORECASE\<close>.\<close>

fun lit_ci :: "string \<Rightarrow> string \<Rightarrow> string list" where
  "lit_ci [] s = [s]"
| "lit_ci (p # ps) [] = []"
| "lit_ci (p # ps) (c # cs) = (if lower c = lower p then lit_ci ps cs else [])"

text \<open>One character of a class; \<^verbatim>\<open>X?\<close> (first with, then without); \<^verbatim>\<open>X*\<close> and \<^verbatim>\<open>X+\<close> (longest first).\<close>

fun one :: "(char \<Rightarrow> bool) \<Rightarrow> string \<Rightarrow> string list" where
  "one P [] = []"
| "one P (c # cs) = (if P c then [cs] else [])"

definition opt :: "(char \<Rightarrow> bool) \<Rightarrow> string \<Rightarrow> string list" where
  "opt P s = one P s @ [s]"

fun star :: "(char \<Rightarrow> bool) \<Rightarrow> string \<Rightarrow> string list" where
  "star P [] = [[]]"
| "star P (c # cs) = (if P c then star P cs @ [c # cs] else [c # cs])"

definition many1 :: "(char \<Rightarrow> bool) \<Rightarrow> string \<Rightarrow> string list" where
  "many1 P s = concat (map (star P) (one P s))"

text \<open>\<^verbatim>\<open>(.*?)\<close> under \<^verbatim>\<open>re.DOTALL\<close>: the captured text and the rest, shortest capture first.\<close>

fun lazy_any :: "string \<Rightarrow> (string \<times> string) list" where
  "lazy_any [] = [([], [])]"
| "lazy_any (c # cs) = ([], c # cs) # map (\<lambda>(g, r). (c # g, r)) (lazy_any cs)"

text \<open>\<^verbatim>\<open>\d+(?:\.\d+)?\<close>: the rests after the number.\<close>

definition number :: "string \<Rightarrow> string list" where
  "number s =
     concat (map (\<lambda>r1. concat (map (many1 isdigit) (one (\<lambda>c. c = CHR ''.'') r1)) @ [r1])
                 (many1 isdigit s))"

text \<open>
  \<^verbatim>\<open>score["\']?\s*[:]?\s*(\d+(?:\.\d+)?)\<close> at the start of \<open>s\<close>: the texts of group 1, one for
  each way to match.
\<close>

definition score_re :: "string \<Rightarrow> string list" where
  "score_re s =
     [take (length r5 - length r6) r5.
        r1 \<leftarrow> lit_ci ''score'' s,
        r2 \<leftarrow> opt isquote r1,
        r3 \<leftarrow> star isspace r2,
        r4 \<leftarrow> opt (\<lambda>c. c = CHR '':'') r3,
        r5 \<leftarrow> star isspace r4,
        r6 \<leftarrow> number r5]"

text \<open>\<^verbatim>\<open>reasoning["\']?\s*[:]?\s*["\'](.*?)["\']}?\<close> at the start of \<open>s\<close>: the texts of group 1.\<close>

definition reasoning_re :: "string \<Rightarrow> string list" where
  "reasoning_re s =
     [g.
        r1 \<leftarrow> lit_ci ''reasoning'' s,
        r2 \<leftarrow> opt isquote r1,
        r3 \<leftarrow> star isspace r2,
        r4 \<leftarrow> opt (\<lambda>c. c = CHR '':'') r3,
        r5 \<leftarrow> star isspace r4,
        r6 \<leftarrow> one isquote r5,
        (g, r7) \<leftarrow> lazy_any r6,
        r8 \<leftarrow> one isquote r7,
        r9 \<leftarrow> opt (\<lambda>c. c = CHR ''}'') r8]"

text \<open>\<^verbatim>\<open>re.search\<close>: the first match at the leftmost position that has one.\<close>

fun re_search :: "(string \<Rightarrow> 'a list) \<Rightarrow> string \<Rightarrow> 'a option" where
  "re_search m [] = (case m [] of [] \<Rightarrow> None | g # gs \<Rightarrow> Some g)"
| "re_search m (c # cs) = (case m (c # cs) of [] \<Rightarrow> re_search m cs | g # gs \<Rightarrow> Some g)"

subsection \<open>evaluate_abstract\<close>

text \<open>The \<^verbatim>\<open>try\<close> branch after a successful \<^verbatim>\<open>json.loads\<close>.\<close>

definition decoded_reply :: "eval_env \<Rightarrow> json \<Rightarrow> exn + annotation" where
  "decoded_reply env result =
     (case result of
        JObj items \<Rightarrow>
          (case py_float env (case map_of items ''score'' of Some v \<Rightarrow> v | None \<Rightarrow> JInt 0) of
             Inl e \<Rightarrow> Inl e
           | Inr s \<Rightarrow>
               Inr \<lparr>score = clamp s,
                    reasoning = (case map_of items ''reasoning'' of
                                   Some v \<Rightarrow> v
                                 | None \<Rightarrow> JStr ''No reasoning provided'')\<rparr>)
      | _ \<Rightarrow> Inl AttributeError)"

text \<open>The \<^verbatim>\<open>except json.JSONDecodeError\<close> branch.\<close>

definition fallback :: "eval_env \<Rightarrow> string \<Rightarrow> exn + annotation" where
  "fallback env result_text =
     (case (case re_search score_re result_text of
              Some g \<Rightarrow> (case float_str env g of Some x \<Rightarrow> Inr x | None \<Rightarrow> Inl ValueError)
            | None \<Rightarrow> Inr (Fin 0)) of
        Inl e \<Rightarrow> Inl e
      | Inr s \<Rightarrow>
          Inr \<lparr>score = clamp s,
               reasoning = (case re_search reasoning_re result_text of
                              Some g \<Rightarrow> JStr g
                            | None \<Rightarrow> JStr ''Unable to parse reasoning'')\<rparr>)"

text \<open>
  What the completion call gives: the message content, or an exception raised before
  \<^verbatim>\<open>result_text\<close> is bound (by the call, or by reading the content of the reply).
\<close>

datatype completion = Content string | Raised string

definition parse_reply :: "eval_env \<Rightarrow> completion \<Rightarrow> exn + annotation" where
  "parse_reply env reply =
     (case reply of
        Raised e \<Rightarrow> Inl (CallError e)
      | Content c \<Rightarrow>
          (let result_text = strip c
           in case json_loads env result_text of
                Decoded result \<Rightarrow> decoded_reply env result
              | JSONDecodeError \<Rightarrow> fallback env result_text
              | LoadsRaised e \<Rightarrow> Inl (LoadsError e)))"

text \<open>
  The completion service is a function of a hidden state \<open>'st\<close> and the abstract, so that two
  calls on one abstract may differ. The outer \<^verbatim>\<open>except Exception\<close> turns every exception into
  the annotation with score 0.
\<close>

type_synonym 'st client = "'st \<Rightarrow> string \<Rightarrow> completion \<times> 'st"

definition evaluate_abstract :: "eval_env \<Rightarrow> 'st client \<Rightarrow> 'st \<Rightarrow> string \<Rightarrow> annotation \<times> 'st" where
  "evaluate_abstract env client st abstract =
     (let (reply, st') = client st abstract
      in (case parse_reply env reply of
            Inr result \<Rightarrow> result
          | Inl e \<Rightarrow> \<lparr>score = Fin 0, reasoning = JStr (''Error: '' @ str_exn env e)\<rparr>,
          st'))"

section \<open>evaluator.py: scoring a snapshot\<close>

text \<open>
  A row of the tabular file as \<^verbatim>\<open>pandas.read_csv\<close> gives it. A text cell is \<open>None\<close> when it is
  missing (NaN); the score cell is a float, NaN when missing; the reasoning cell holds a value of
  type \<open>'r\<close>. The eight bibliographic columns are always there; \<open>has_score\<close> and
  \<open>has_reasoning\<close> say whether the frame has the two optional columns, and no function reads a
  cell of a column that the frame lacks.
\<close>

record 'r row =
  col_id :: "string option"
  col_title :: "string option"
  col_categories :: "string option"
  col_abstract :: "string option"
  col_doi :: "string option"
  col_created :: "string option"
  col_updated :: "string option"
  col_authors :: "string option"
  col_score :: pyfloat
  col_reasoning :: "'r option"

record 'r dataframe =
  has_score :: bool
  has_reasoning :: bool
  rows :: "'r row list"

text \<open>The bibliographic part of a row.\<close>

definition paper_fields ::
  "'r row \<Rightarrow> string option \<times> string option \<times> string option \<times> string option
             \<times> string option \<times> string option \<times> string option \<times> string option" where
  "paper_fields r =
     (col_id r, col_title r, col_categories r, col_abstract r,
      col_doi r, col_created r, col_updated r, col_authors r)"

text \<open>
  The argument \<^verbatim>\<open>num_rows\<close>: the text \<^verbatim>\<open>'*'\<close>, a value on which \<^verbatim>\<open>int(num_rows)\<close> succeeds, or
  one on which it raises \<^verbatim>\<open>ValueError\<close>.
\<close>

datatype num_rows = AllRows | Rows int | NotANumber

text \<open>\<^verbatim>\<open>df.head(n)\<close>: the first \<open>n\<close> rows, and all but the last \<open>-n\<close> rows when \<open>n\<close> is negative.\<close>

definition head :: "int \<Rightarrow> 'a list \<Rightarrow> 'a list" where
  "head n xs = (if 0 \<le> n then take (nat n) xs else take (length xs - nat (- n)) xs)"

text \<open>The abstract of a row that the loop does not skip: present and not blank.\<close>

definition abstract_to_evaluate :: "'r row \<Rightarrow> string option" where
  "abstract_to_evaluate r =
     (case col_abstract r of
        None \<Rightarrow> None
      | Some abstract \<Rightarrow> if strip abstract = [] then None else Some abstract)"

text \<open>
  The loop over \<^verbatim>\<open>df.iterrows()\<close> from row \<open>idx\<close> on: the updated rows, the indices of the rows
  sent to \<^verbatim>\<open>evaluate_abstract\<close> in the order of the calls, and the state of the service. Slicing
  the title of a row to evaluate raises \<^verbatim>\<open>TypeError\<close> when the title cell is missing, and storing
  the annotation raises when pandas refuses a value; either exception leaves
  \<^verbatim>\<open>evaluate_papers\<close>, which logs it and raises it again.
\<close>

fun process_rows ::
  "eval_env \<Rightarrow> 'st client \<Rightarrow> 'st \<Rightarrow> nat \<Rightarrow> json row list \<Rightarrow> exn + (json row list \<times> nat list \<times> 'st)" where
  "process_rows env client st idx [] = Inr ([], [], st)"
| "process_rows env client st idx (r # rest) =
     (case abstract_to_evaluate r of
        None \<Rightarrow>
          (case process_rows env client st (Suc idx) rest of
             Inl e \<Rightarrow> Inl e
           | Inr (rs, calls, st') \<Rightarrow> Inr (r # rs, calls, st'))
      | Some abstract \<Rightarrow>
          (case col_title r of
             None \<Rightarrow> Inl TypeError
           | Some title \<Rightarrow>
               (case evaluate_abstract env client st abstract of
                  (result, st1) \<Rightarrow>
                    (case store_error env (score result) (reasoning result) of
                       Some e \<Rightarrow> Inl e
                     | None \<Rightarrow>
                         (case process_rows env client st1 (Suc idx) rest of
                            Inl e \<Rightarrow> Inl e
                          | Inr (rs, calls, st') \<Rightarrow>
                              Inr (r\<lparr>col_score := score result,
                                     col_reasoning := Some (reasoning result)\<rparr> # rs,
                                   idx # calls, st'))))))"

text \<open>
  What a call of \<^verbatim>\<open>evaluate_papers\<close> that returns leaves behind: the frame written to the
  output path (and returned), the indices evaluated, the state of the service.
\<close>

record 'st evaluation =
  written :: "json dataframe"
  evaluated :: "nat list"
  client_state :: 'st

definition add_columns :: "json dataframe \<Rightarrow> json dataframe" where
  "add_columns df =
     (let df1 = (if has_score df then df
                 else df\<lparr>has_score := True, rows := map (\<lambda>r. r\<lparr>col_score := Fin 0\<rparr>) (rows df)\<rparr>)
      in if has_reasoning df1 then df1
         else df1\<lparr>has_reasoning := True, rows := map (\<lambda>r. r\<lparr>col_reasoning := Some (JStr [])\<rparr>) (rows df1)\<rparr>)"

definition evaluate_papers ::
  "eval_env \<Rightarrow> 'st client \<Rightarrow> 'st \<Rightarrow> json dataframe \<Rightarrow> num_rows \<Rightarrow> exn + 'st evaluation" where
  "evaluate_papers env client st df num_rows =
     (let df1 = (case num_rows of
                   AllRows \<Rightarrow> df
                 | Rows n \<Rightarrow> df\<lparr>rows := head n (rows df)\<rparr>
                 | NotANumber \<Rightarrow> df);
          df2 = add_columns df1
      in case process_rows env client st 0 (rows df2) of
           Inl e \<Rightarrow> Inl e
         | Inr (rs, calls, st') \<Rightarrow>
             Inr \<lparr>written = df2\<lparr>rows := rs\<rparr>, evaluated = calls, client_state = st'\<rparr>)"

section \<open>app.py: the paper listing\<close>

text \<open>The \<^verbatim>\<open>Paper\<close> and \<^verbatim>\<open>PapersResponse\<close> models.\<close>

record paper =
  p_id :: string
  p_title :: string
  p_categories :: string
  p_abstract :: string
  p_doi :: "string option"
  p_created :: "string option"
  p_updated :: "string option"
  p_authors :: string
  p_score :: "pyfloat option"
  p_reasoning :: "string option"

record papers_response =
  resp_papers :: "paper list"
  resp_total :: int
  resp_page :: int
  resp_per_page :: int
  resp_total_pages :: int

datatype sort_column = Created | Updated | Score | Title

datatype sort_direction = Asc | Desc

text \<open>
  The parameters of \<^verbatim>\<open>get_papers\<close>. \<open>sort_by\<close> and \<open>sort_order\<close> range over the values that
  their patterns admit.
\<close>

record query =
  page :: int
  per_page :: int
  search :: "string option"
  category :: "string option"
  min_score :: "real option"
  max_score :: "real option"
  sort_by :: sort_column
  sort_order :: sort_direction

datatype api_error = ValidationError | PatternError

text \<open>
  Library parameters: \<^verbatim>\<open>str.lower\<close>, and the compilation of the pattern that
  \<^verbatim>\<open>Series.str.contains\<close> searches for (\<open>None\<close>: \<^verbatim>\<open>re.error\<close>; else the test whether the
  pattern occurs in a text).
\<close>

record app_env =
  str_lower :: "string \<Rightarrow> string"
  re_contains :: "string \<Rightarrow> (string \<Rightarrow> bool) option"

text \<open>The bounds declared with \<^verbatim>\<open>Query(...)\<close>, checked before the body runs.\<close>

definition score_bound_ok :: "real option \<Rightarrow> bool" where
  "score_bound_ok b = (case b of None \<Rightarrow> True | Some x \<Rightarrow> 0 \<le> x \<and> x \<le> 10)"

definition valid_query :: "query \<Rightarrow> bool" where
  "valid_query q =
     (1 \<le> page q \<and> 1 \<le> per_page q \<and> per_page q \<le> 100
      \<and> score_bound_ok (min_score q) \<and> score_bound_ok (max_score q))"

text \<open>\<^verbatim>\<open>series.str.contains(pat, na=False)\<close> on one cell, the pattern compiled.\<close>

definition cell_contains :: "(string \<Rightarrow> bool) \<Rightarrow> string option \<Rightarrow> bool" where
  "cell_contains found c = (case c of None \<Rightarrow> False | Some s \<Rightarrow> found s)"

definition lower_cell :: "app_env \<Rightarrow> string option \<Rightarrow> string option" where
  "lower_cell env c = map_option (str_lower env) c"

definition search_filter :: "app_env \<Rightarrow> string option \<Rightarrow> 'r row list \<Rightarrow> api_error + 'r row list" where
  "search_filter env srch rs =
     (case srch of
        None \<Rightarrow> Inr rs
      | Some s \<Rightarrow>
          if s = [] then Inr rs
          else (case re_contains env (str_lower env s) of
                  None \<Rightarrow> Inl PatternError
                | Some found \<Rightarrow>
                    Inr (filter (\<lambda>r. cell_contains found (lower_cell env (col_title r))
                                     \<or> cell_contains found (lower_cell env (col_abstract r))
                                     \<or> cell_contains found (lower_cell env (col_authors r))) rs)))"

definition category_filter :: "app_env \<Rightarrow> string option \<Rightarrow> 'r row list \<Rightarrow> api_error + 'r row list" where
  "category_filter env cat rs =
     (case cat of
        None \<Rightarrow> Inr rs
      | Some s \<Rightarrow>
          if s = [] then Inr rs
          else (case re_contains env s of
                  None \<Rightarrow> Inl PatternError
                | Some found \<Rightarrow> Inr (filter (\<lambda>r. cell_contains found (col_categories r)) rs)))"

text \<open>\<^verbatim>\<open>a <= b\<close> on floats: false whenever one side is NaN.\<close>

definition py_le :: "pyfloat \<Rightarrow> pyfloat \<Rightarrow> bool" where
  "py_le a b = (a \<noteq> NaN \<and> b \<noteq> NaN \<and> \<not> py_less b a)"

definition min_score_filter :: "bool \<Rightarrow> real option \<Rightarrow> 'r row list \<Rightarrow> 'r row list" where
  "min_score_filter score_in_columns bound rs =
     (case bound of
        None \<Rightarrow> rs
      | Some m \<Rightarrow> if score_in_columns then filter (\<lambda>r. py_le (Fin m) (col_score r)) rs else rs)"

definition max_score_filter :: "bool \<Rightarrow> real option \<Rightarrow> 'r row list \<Rightarrow> 'r row list" where
  "max_score_filter score_in_columns bound rs =
     (case bound of
        None \<Rightarrow> rs
      | Some m \<Rightarrow> if score_in_columns then filter (\<lambda>r. py_le (col_score r) (Fin m)) rs else rs)"

text \<open>The four filters in the order of the source.\<close>

definition apply_filters :: "app_env \<Rightarrow> query \<Rightarrow> 'r dataframe \<Rightarrow> api_error + 'r row list" where
  "apply_filters env q df =
     (case search_filter env (search q) (rows df) of
        Inl e \<Rightarrow> Inl e
      | Inr rs1 \<Rightarrow>
          (case category_filter env (category q) rs1 of
             Inl e \<Rightarrow> Inl e
           | Inr rs2 \<Rightarrow>
               Inr (max_score_filter (has_score df) (max_score q)
                      (min_score_filter (has_score df) (min_score q) rs2))))"

text \<open>
  \<^verbatim>\<open>sort_values(by, ascending, na_position='last')\<close>: the rows with a key in order, then the rows
  without. Texts compare by code point. The order that pandas gives to rows with equal keys is
  not specified; here they keep their order.
\<close>

fun str_le :: "string \<Rightarrow> string \<Rightarrow> bool" where
  "str_le [] t = True"
| "str_le (c # cs) [] = False"
| "str_le (c # cs) (d # ds) = ((of_char c :: nat) < of_char d \<or> (c = d \<and> str_le cs ds))"

fun insert_by :: "('a \<Rightarrow> 'a \<Rightarrow> bool) \<Rightarrow> 'a \<Rightarrow> 'a list \<Rightarrow> 'a list" where
  "insert_by le x [] = [x]"
| "insert_by le x (y # ys) = (if le x y then x # y # ys else y # insert_by le x ys)"

definition sort_by_le :: "('a \<Rightarrow> 'a \<Rightarrow> bool) \<Rightarrow> 'a list \<Rightarrow> 'a list" where
  "sort_by_le le xs = foldr (insert_by le) xs []"

definition sort_values ::
  "('a \<Rightarrow> bool) \<Rightarrow> ('a \<Rightarrow> 'a \<Rightarrow> bool) \<Rightarrow> sort_direction \<Rightarrow> 'a list \<Rightarrow> 'a list" where
  "sort_values isna le dir xs =
     sort_by_le (case dir of Asc \<Rightarrow> le | Desc \<Rightarrow> (\<lambda>a b. le b a)) (filter (\<lambda>x. \<not> isna x) xs)
     @ filter isna xs"

definition text_key_le :: "('r row \<Rightarrow> string option) \<Rightarrow> 'r row \<Rightarrow> 'r row \<Rightarrow> bool" where
  "text_key_le col a b =
     (case (col a, col b) of
        (Some s, Some t) \<Rightarrow> str_le s t
      | _ \<Rightarrow> True)"

definition sort_rows :: "query \<Rightarrow> bool \<Rightarrow> 'r row list \<Rightarrow> 'r row list" where
  "sort_rows q score_in_columns rs =
     (case sort_by q of
        Created \<Rightarrow> sort_values (\<lambda>r. col_created r = None) (text_key_le col_created) (sort_order q) rs
      | Updated \<Rightarrow> sort_values (\<lambda>r. col_updated r = None) (text_key_le col_updated) (sort_order q) rs
      | Title \<Rightarrow> sort_values (\<lambda>r. col_title r = None) (text_key_le col_title) (sort_order q) rs
      | Score \<Rightarrow>
          if score_in_columns
          then sort_values (\<lambda>r. col_score r = NaN) (\<lambda>a b. py_le (col_score a) (col_score b)) (sort_order q) rs
          else rs)"

text \<open>\<^verbatim>\<open>str(cell)\<close>: a missing cell prints as \<^verbatim>\<open>nan\<close>.\<close>

definition str_cell :: "string option \<Rightarrow> string" where
  "str_cell c = (case c of None \<Rightarrow> ''nan'' | Some s \<Rightarrow> s)"

definition to_paper :: "bool \<Rightarrow> bool \<Rightarrow> string row \<Rightarrow> paper" where
  "to_paper score_in_columns reasoning_in_columns r =
     \<lparr>p_id = str_cell (col_id r),
      p_title = str_cell (col_title r),
      p_categories = str_cell (col_categories r),
      p_abstract = str_cell (col_abstract r),
      p_doi = col_doi r,
      p_created = col_created r,
      p_updated = col_updated r,
      p_authors = str_cell (col_authors r),
      p_score = (if score_in_columns \<and> col_score r \<noteq> NaN then Some (col_score r) else None),
      p_reasoning = (if reasoning_in_columns then col_reasoning r else None)\<rparr>"

text \<open>\<^verbatim>\<open>df.iloc[start:end]\<close> for \<open>0 \<le> start \<le> end\<close>.\<close>

definition iloc :: "int \<Rightarrow> int \<Rightarrow> 'a list \<Rightarrow> 'a list" where
  "iloc start end xs = take (nat (end - start)) (drop (nat start) xs)"

definition get_papers :: "app_env \<Rightarrow> query \<Rightarrow> string dataframe \<Rightarrow> api_error + papers_response" where
  "get_papers env q df =
     (if \<not> valid_query q then Inl ValidationError
      else if rows df = []
      then Inr \<lparr>resp_papers = [], resp_total = 0, resp_page = page q,
                resp_per_page = per_page q, resp_total_pages = 0\<rparr>
      else (case apply_filters env q df of
              Inl e \<Rightarrow> Inl e
            | Inr matching \<Rightarrow>
                (let sorted_rows = sort_rows q (has_score df) matching;
                     total = int (length sorted_rows);
                     total_pages = (total + per_page q - 1) div per_page q;
                     start = (page q - 1) * per_page q;
                     end = start + per_page q;
                     df_page = iloc start end sorted_rows
                 in Inr \<lparr>resp_papers = map (to_paper (has_score df) (has_reasoning df)) df_page,
                         resp_total = total, resp_page = page q,
                         resp_per_page = per_page q, resp_total_pages = total_pages\<rparr>)))"

section \<open>Concrete parameters and inputs\<close>

text \<open>
  Parameters for replies that are not JSON documents: \<^verbatim>\<open>json.loads\<close> raises
  \<^verbatim>\<open>JSONDecodeError\<close>, \<^verbatim>\<open>float\<close> reads the decimal literals that group 1 of the score
  pattern can hold, and pandas stores the annotation, whose reasoning is then a text (a list
  would raise \<^verbatim>\<open>ValueError\<close>).
\<close>

definition digits_value :: "string \<Rightarrow> nat" where
  "digits_value s = foldl (\<lambda>n c. 10 * n + (of_char c - 48)) 0 s"

definition decimal_literal :: "string \<Rightarrow> pyfloat option" where
  "decimal_literal s =
     (let ip = takeWhile isdigit s; rest = dropWhile isdigit s
      in if ip = [] then None
         else (case rest of
                 [] \<Rightarrow> Some (Fin (real (digits_value ip)))
               | c # fp \<Rightarrow>
                   if c = CHR ''.'' \<and> fp \<noteq> [] \<and> list_all isdigit fp
                   then Some (Fin (real (digits_value ip) + real (digits_value fp) / 10 ^ length fp))
                   else None))"

definition exn_name :: "exn \<Rightarrow> string" where
  "exn_name e =
     (case e of
        CallError m \<Rightarrow> m
      | LoadsError m \<Rightarrow> m
      | AttributeError \<Rightarrow> ''AttributeError''
      | TypeError \<Rightarrow> ''TypeError''
      | ValueError \<Rightarrow> ''ValueError''
      | OverflowError \<Rightarrow> ''OverflowError'')"

definition not_json :: "string \<Rightarrow> loads_result" where
  "not_json s = JSONDecodeError"

definition store_text :: "pyfloat \<Rightarrow> json \<Rightarrow> exn option" where
  "store_text s v = (case v of JArr vs \<Rightarrow> Some ValueError | _ \<Rightarrow> None)"

definition text_env :: eval_env where
  "text_env =
     \<lparr>json_loads = not_json, float_str = decimal_literal, str_exn = exn_name,
      store_error = store_text\<rparr>"

text \<open>A service that gives the same reply to every call and counts its calls.\<close>

definition reply_client :: "completion \<Rightarrow> nat client" where
  "reply_client r st abstract = (r, Suc st)"

definition market_fit_reply :: string where
  "market_fit_reply = ''I'd say score: 7, reasoning: 'Strong market fit'' @ [CHR 0x27]"

text \<open>The files as an earlier run left them: a snapshot of one record, no watermark.\<close>

definition old_snapshot_files :: "nat files" where
  "old_snapshot_files =
     \<lparr>last_update_file = None, csv_file = Some [7], json_file = Some [7], writes = []\<rparr>"

text \<open>Snapshots for the evaluator: 25 papers without score columns, and one scored paper.\<close>

definition paper_row :: "string \<Rightarrow> string \<Rightarrow> 'r row" where
  "paper_row ident abstract =
     \<lparr>col_id = Some ident, col_title = Some (''On '' @ ident), col_categories = Some ''cs.LG'',
      col_abstract = Some abstract, col_doi = None, col_created = Some ''2024-01-05'',
      col_updated = None, col_authors = Some ''A. Author'', col_score = NaN, col_reasoning = None\<rparr>"

definition unscored_snapshot :: "json dataframe" where
  "unscored_snapshot =
     \<lparr>has_score = False, has_reasoning = False,
      rows = map (\<lambda>i. paper_row (replicate (Suc i) CHR ''x'') ''An abstract.'') [0..<25]\<rparr>"

definition scored_snapshot :: "json dataframe" where
  "scored_snapshot =
     \<lparr>has_score = True, has_reasoning = True,
      rows = [(paper_row ''x'' ''An abstract.'')\<lparr>col_score := Fin 8, col_reasoning := Some (JStr ''Clear market.'')\<rparr>]\<rparr>"

text \<open>Two scored papers, the second with a blank abstract.\<close>

definition mixed_snapshot :: "json dataframe" where
  "mixed_snapshot =
     \<lparr>has_score = True, has_reasoning = True,
      rows = [(paper_row ''x'' ''An abstract.'')\<lparr>col_score := Fin 8, col_reasoning := Some (JStr ''Clear market.'')\<rparr>,
              (paper_row ''y'' ''  '')\<lparr>col_score := Fin 4, col_reasoning := Some (JStr ''Niche.'')\<rparr>]\<rparr>"

text \<open>Two papers, the first without a title.\<close>

definition untitled_snapshot :: "json dataframe" where
  "untitled_snapshot =
     \<lparr>has_score = False, has_reasoning = False,
      rows = [(paper_row ''x'' ''An abstract.'')\<lparr>col_title := None\<rparr>, paper_row ''y'' ''An abstract.'']\<rparr>"

text \<open>A literal pattern occurs in a text when the text has it as a substring.\<close>

fun starts_with :: "string \<Rightarrow> string \<Rightarrow> bool" where
  "starts_with [] s = True"
| "starts_with (p # ps) [] = False"
| "starts_with (p # ps) (c # cs) = (p = c \<and> starts_with ps cs)"

fun occurs_in :: "string \<Rightarrow> string \<Rightarrow> bool" where
  "occurs_in p [] = starts_with p []"
| "occurs_in p (c # cs) = (starts_with p (c # cs) \<or> occurs_in p cs)"

definition literal_pattern :: "string \<Rightarrow> (string \<Rightarrow> bool) option" where
  "literal_pattern p = Some (occurs_in p)"

definition plain_env :: app_env where
  "plain_env = \<lparr>str_lower = map lower, re_contains = literal_pattern\<rparr>"

text \<open>Listings: five papers, three of them scored; and two papers from a file without score column.\<close>

definition scored_row :: "string \<Rightarrow> pyfloat \<Rightarrow> string row" where
  "scored_row ident s = (paper_row ident ''An abstract.'')\<lparr>col_score := s\<rparr>"

definition listing_frame :: "string dataframe" where
  "listing_frame =
     \<lparr>has_score = True, has_reasoning = True,
      rows = [scored_row ''a'' (Fin 7), scored_row ''b'' NaN, scored_row ''c'' (Fin 3),
              scored_row ''d'' (Fin 9), scored_row ''e'' NaN]\<rparr>"

definition base_frame :: "string dataframe" where
  "base_frame =
     \<lparr>has_score = False, has_reasoning = False,
      rows = [paper_row ''a'' ''An abstract.'', paper_row ''b'' ''An abstract.'']\<rparr>"

definition title_query :: query where
  "title_query =
     \<lparr>page = 1, per_page = 2, search = None, category = None, min_score = None,
      max_score = None, sort_by = Title, sort_order = Asc\<rparr>"

fun is_csv_write :: "'p file_write \<Rightarrow> bool" where
  "is_csv_write (WriteCsv ps) = True"
| "is_csv_write w = False"

section \<open>Auxiliary definitions for the statements\<close>

text \<open>The indices that the loop of \<^verbatim>\<open>evaluate_papers\<close> sends to the service, from row \<open>idx\<close> on.\<close>

fun expected_calls :: "nat \<Rightarrow> 'r row list \<Rightarrow> nat list" where
  "expected_calls idx [] = []"
| "expected_calls idx (r # rs) =
     (if abstract_to_evaluate r = None then expected_calls (Suc idx) rs
      else idx # expected_calls (Suc idx) rs)"

text \<open>The rows that \<^verbatim>\<open>evaluate_papers\<close> keeps for a value of \<^verbatim>\<open>num_rows\<close>.\<close>

definition select_rows :: "num_rows \<Rightarrow> 'a list \<Rightarrow> 'a list" where
  "select_rows num_rows xs =
     (case num_rows of AllRows \<Rightarrow> xs | Rows n \<Rightarrow> head n xs | NotANumber \<Rightarrow> xs)"

text \<open>The abstracts of the rows that the loop does not skip, in the order of the rows.\<close>

definition abstracts_to_send :: "'r row list \<Rightarrow> string list" where
  "abstracts_to_send rs = List.map_filter abstract_to_evaluate rs"

text \<open>
  The annotations that \<^verbatim>\<open>evaluate_abstract\<close> returns when the abstracts are sent to the service
  one after the other, and the state of the service after the last call.
\<close>

fun annotate_all :: "eval_env \<Rightarrow> 'st client \<Rightarrow> 'st \<Rightarrow> string list \<Rightarrow> annotation list \<times> 'st" where
  "annotate_all env client st [] = ([], st)"
| "annotate_all env client st (a # as) =
     (case evaluate_abstract env client st a of
        (result, st1) \<Rightarrow>
          (case annotate_all env client st1 as of
             (results, st') \<Rightarrow> (result # results, st')))"

text \<open>
  The score and reasoning cells that the rows \<open>out\<close> hold at the places where the rows \<open>rs\<close>
  have an abstract to evaluate.
\<close>

definition annotated_cells :: "'r row list \<Rightarrow> json row list \<Rightarrow> (pyfloat \<times> json option) list" where
  "annotated_cells rs out =
     map (\<lambda>(r, r'). (col_score r', col_reasoning r'))
       (filter (\<lambda>(r, r'). abstract_to_evaluate r \<noteq> None) (zip rs out))"

text \<open>The response to a request for page \<open>pg\<close> when the filters give \<open>matching\<close>.\<close>

definition page_response :: "query \<Rightarrow> string dataframe \<Rightarrow> string row list \<Rightarrow> int \<Rightarrow> papers_response" where
  "page_response q df matching pg =
     \<lparr>resp_papers = map (to_paper (has_score df) (has_reasoning df))
                      (take (nat (per_page q))
                         (drop (nat (pg - 1) * nat (per_page q)) (sort_rows q (has_score df) matching))),
      resp_total = int (length matching),
      resp_page = pg,
      resp_per_page = per_page q,
      resp_total_pages = \<lceil>real (length matching) / real_of_int (per_page q)\<rceil>\<rparr>"

text \<open>The calls and the rows written by a run of \<^verbatim>\<open>evaluate_papers\<close>; \<open>None\<close> when it raised.\<close>

definition calls_of :: "exn + 'st evaluation \<Rightarrow> nat list option" where
  "calls_of res = (case res of Inl e \<Rightarrow> None | Inr ev \<Rightarrow> Some (evaluated ev))"

definition rows_of :: "exn + 'st evaluation \<Rightarrow> json row list option" where
  "rows_of res = (case res of Inl e \<Rightarrow> None | Inr ev \<Rightarrow> Some (rows (written ev)))"

text \<open>The frame written by a run of \<^verbatim>\<open>evaluate_papers\<close>; an empty frame when it raised.\<close>

definition written_of :: "exn + 'st evaluation \<Rightarrow> json dataframe" where
  "written_of res =
     (case res of
        Inl e \<Rightarrow> \<lparr>has_score = False, has_reasoning = False, rows = []\<rparr>
      | Inr ev \<Rightarrow> written ev)"

text \<open>The papers of a listing; empty when the request failed.\<close>

definition papers_of :: "api_error + papers_response \<Rightarrow> paper list" where
  "papers_of res = (case res of Inl e \<Rightarrow> [] | Inr r \<Rightarrow> resp_papers r)"

text \<open>A score that \<^verbatim>\<open>evaluate_abstract\<close> may give: 0, or a value from 1 to 10.\<close>

fun valid_score :: "pyfloat \<Rightarrow> bool" where
  "valid_score (Fin x) = (x = 0 \<or> (1 \<le> x \<and> x \<le> 10))"
| "valid_score s = False"

section \<open>Properties of the ingestion run\<close>

lemma get_date_range_until: "snd (get_date_range env fs) = strftime env (now_date env)"
  by (simp add: get_date_range_def Let_def)

lemma get_date_range_from:
  "fst (get_date_range env fs) =
     strftime env (case watermark env fs of
                     None \<Rightarrow> now_date env - MAX_DAYS
                   | Some w \<Rightarrow> max w (now_date env - MAX_DAYS))"
  by (simp add: get_date_range_def watermark_def Let_def split: option.splits)

lemma main_last_update:
  "last_update_file (main env fs) = Some (snd (get_date_range env fs))"
  by (simp add: main_def update_last_update_def Let_def split: prod.splits)

lemma main_writes:
  "writes (main env fs) =
     writes fs
     @ (let all_papers = scrape_all env (fst (get_date_range env fs)) (snd (get_date_range env fs))
        in if all_papers = [] then [] else [WriteCsv all_papers, WriteJson all_papers])
     @ [WriteLastUpdate (snd (get_date_range env fs))]"
  by (simp add: main_def update_last_update_def save_results_def Let_def split: prod.splits)

lemma main_csv_file:
  "csv_file (main env fs) =
     (let all_papers = scrape_all env (fst (get_date_range env fs)) (snd (get_date_range env fs))
      in if all_papers = [] then csv_file fs else Some all_papers)"
  by (simp add: main_def update_last_update_def save_results_def Let_def split: prod.splits)

text \<open>
  C8. The fetch window starts at the later of the watermark and today minus \<open>MAX_DAYS\<close>
  (at today minus \<open>MAX_DAYS\<close> when there is no readable watermark) and ends today; a watermark
  ten days back gives the window of the last seven days; and after the run the watermark file
  holds the end of the window, whatever the categories returned.
\<close>

theorem C8_fetch_window:
  "fst (get_date_range env fs) =
     strftime env (case watermark env fs of
                     None \<Rightarrow> now_date env - MAX_DAYS
                   | Some w \<Rightarrow> max w (now_date env - MAX_DAYS))
   \<and> snd (get_date_range env fs) = strftime env (now_date env)
   \<and> (watermark env fs = Some (now_date env - 10) \<longrightarrow>
        get_date_range env fs = (strftime env (now_date env - 7), strftime env (now_date env)))
   \<and> last_update_file (main env fs) = Some (strftime env (now_date env))"
proof -
  have a: "watermark env fs = Some (now_date env - 10) \<longrightarrow>
        get_date_range env fs = (strftime env (now_date env - 7), strftime env (now_date env))"
    by (auto simp: prod_eq_iff get_date_range_from get_date_range_until MAX_DAYS_def)
  show ?thesis
    using a by (simp add: get_date_range_from get_date_range_until main_last_update)
qed

text \<open>Today is day 30 and the watermark is day 20: the window is day 23 to day 30.\<close>

theorem C8_fetch_window_witness:
  "watermark (unary_date_env 30 no_scraper) (no_files\<lparr>last_update_file := Some (replicate 20 CHR ''d'')\<rparr>)
     = Some (now_date (unary_date_env 30 no_scraper) - 10)
   \<and> get_date_range (unary_date_env 30 no_scraper) (no_files\<lparr>last_update_file := Some (replicate 20 CHR ''d'')\<rparr>)
     = (replicate 23 CHR ''d'', replicate 30 CHR ''d'')
   \<and> last_update_file (main (unary_date_env 30 no_scraper) (no_files\<lparr>last_update_file := Some (replicate 20 CHR ''d'')\<rparr>))
     = Some (replicate 30 CHR ''d'')"
  using C8_fetch_window [of "unary_date_env 30 no_scraper"
      "no_files\<lparr>last_update_file := Some (replicate 20 CHR ''d'')\<rparr>"]
  by (simp add: watermark_def unary_date_env_def no_files_def strip_def isspace_def list_all_iff)

text \<open>
  C10, as the code has it. A run that fetched at least one record writes the snapshot CSV once
  (replacing the one before) and the JSON copy once; a run that fetched none writes neither and
  the snapshot before stays; the watermark is written once, last, in both cases.
\<close>

theorem C10_writes:
  "writes (main env fs) =
     writes fs
     @ (if scrape_all env (fst (get_date_range env fs)) (snd (get_date_range env fs)) = [] then []
        else [WriteCsv (scrape_all env (fst (get_date_range env fs)) (snd (get_date_range env fs))),
              WriteJson (scrape_all env (fst (get_date_range env fs)) (snd (get_date_range env fs)))])
     @ [WriteLastUpdate (strftime env (now_date env))]
   \<and> csv_file (main env fs) =
       (if scrape_all env (fst (get_date_range env fs)) (snd (get_date_range env fs)) = []
        then csv_file fs
        else Some (scrape_all env (fst (get_date_range env fs)) (snd (get_date_range env fs))))"
  by (simp add: main_writes main_csv_file get_date_range_until Let_def)

text \<open>A run that fetches two records for one category.\<close>

theorem C10_writes_witness:
  "writes (main (unary_date_env 30 cs_scraper) old_snapshot_files)
     = [WriteCsv [1, 2], WriteJson [1, 2], WriteLastUpdate (replicate 30 CHR ''d'')]
   \<and> csv_file (main (unary_date_env 30 cs_scraper) old_snapshot_files) = Some [1, 2]"
  using C10_writes [of "unary_date_env 30 cs_scraper" old_snapshot_files]
  by (simp add: get_date_range_def scrape_all_def scrape_arxiv_def
      unary_date_env_def cs_scraper_def old_snapshot_files_def CATEGORIES_def Let_def)

text \<open>
  C10 as stated fails: when every fetch raises, the run writes the watermark only. No snapshot
  file is written and the snapshot of the run before is still in place.
\<close>

theorem C10_counterexample:
  "length (filter is_csv_write (writes (main (unary_date_env 30 no_scraper) old_snapshot_files))) \<noteq> 1
   \<and> writes (main (unary_date_env 30 no_scraper) old_snapshot_files)
       = [WriteLastUpdate (replicate 30 CHR ''d'')]
   \<and> csv_file (main (unary_date_env 30 no_scraper) old_snapshot_files) = Some [7]"
  by (simp add: main_def get_date_range_def scrape_all_def scrape_arxiv_def save_results_def
      update_last_update_def unary_date_env_def no_scraper_def old_snapshot_files_def
      CATEGORIES_def Let_def)

section \<open>Properties of evaluate_abstract\<close>

lemma clamp_range: "clamp s \<in> Fin ` {1..10}"
  by (cases s) (auto simp: clamp_def py_min_def py_max_def)

lemma decoded_reply_score:
  "decoded_reply env result = Inr a \<Longrightarrow> score a \<in> Fin ` {1..10}"
  by (auto simp: decoded_reply_def clamp_range split: json.splits sum.splits)

lemma fallback_score:
  "fallback env result_text = Inr a \<Longrightarrow> score a \<in> Fin ` {1..10}"
  by (auto simp: fallback_def clamp_range split: sum.splits)

lemma parse_reply_score:
  "parse_reply env reply = Inr a \<Longrightarrow> score a \<in> Fin ` {1..10}"
  by (auto simp: parse_reply_def Let_def dest: decoded_reply_score fallback_score
      split: completion.splits loads_result.splits)

lemma valid_score_iff: "valid_score s \<longleftrightarrow> s = Fin 0 \<or> s \<in> Fin ` {1..10}"
  by (cases s) auto

lemma evaluate_abstract_score:
  "evaluate_abstract env client st abstract = (result, st') \<Longrightarrow> valid_score (score result)"
  by (auto simp: valid_score_iff evaluate_abstract_def Let_def dest: parse_reply_score
      split: prod.splits sum.splits)

text \<open>
  C1. Whatever the service does (a reply that decodes, a reply that does not, an exception), the
  score of the annotation is 0 or lies between 1 and 10.
\<close>

theorem C1_score_range:
  "score (fst (evaluate_abstract env client st abstract)) = Fin 0
   \<or> score (fst (evaluate_abstract env client st abstract)) \<in> Fin ` {1..10}"
  by (auto simp: evaluate_abstract_def Let_def dest: parse_reply_score split: prod.splits sum.splits)

text \<open>
  C9. On the reply \<^verbatim>\<open>I'd say score: 7, reasoning: 'Strong market fit'\<close>, which
  \<^verbatim>\<open>json.loads\<close> rejects, the fallback gives score 7 and reasoning \<^verbatim>\<open>Strong market fit\<close>.
\<close>

theorem C9_fallback_scenario:
  assumes "client st abstract = (Content market_fit_reply, st')"
    and "json_loads env market_fit_reply = JSONDecodeError"
    and "float_str env ''7'' = Some (Fin 7)"
  shows "evaluate_abstract env client st abstract
         = (\<lparr>score = Fin 7, reasoning = JStr ''Strong market fit''\<rparr>, st')"
proof -
  have s: "strip market_fit_reply = market_fit_reply"
    by (simp add: market_fit_reply_def strip_def isspace_def)
  have a: "re_search score_re market_fit_reply = Some ''7''"
    by (simp add: market_fit_reply_def score_re_def opt_def many1_def number_def lower_def
        isdigit_def isquote_def isspace_def)
  have b: "re_search reasoning_re market_fit_reply = Some ''Strong market fit''"
    by (simp add: market_fit_reply_def reasoning_re_def opt_def lower_def isquote_def isspace_def)
  have c: "clamp (Fin 7) = Fin 7"
    by (simp add: clamp_def py_min_def py_max_def)
  show ?thesis
    using assms by (simp add: evaluate_abstract_def parse_reply_def fallback_def s a b c)
qed

text \<open>The scenario with the concrete parameters.\<close>

theorem C9_fallback_scenario_witness:
  "reply_client (Content market_fit_reply) 0 ''An abstract.'' = (Content market_fit_reply, 1)
   \<and> json_loads text_env market_fit_reply = JSONDecodeError
   \<and> float_str text_env ''7'' = Some (Fin 7)
   \<and> evaluate_abstract text_env (reply_client (Content market_fit_reply)) 0 ''An abstract.''
       = (\<lparr>score = Fin 7, reasoning = JStr ''Strong market fit''\<rparr>, 1)"
proof -
  have h1: "reply_client (Content market_fit_reply) 0 ''An abstract.'' = (Content market_fit_reply, 1)"
    by (simp add: reply_client_def)
  have h2: "json_loads text_env market_fit_reply = JSONDecodeError"
    by (simp add: text_env_def not_json_def)
  have h3: "float_str text_env ''7'' = Some (Fin 7)"
    by (simp add: text_env_def decimal_literal_def isdigit_def digits_value_def)
  show ?thesis
    using C9_fallback_scenario [where client = "reply_client (Content market_fit_reply)" and st = 0
        and abstract = "''An abstract.''" and st' = 1 and env = text_env] h1 h2 h3
    by simp
qed

lemma fallback_no_score:
  "re_search score_re result_text = None \<Longrightarrow>
   fallback env result_text =
     Inr \<lparr>score = Fin 1,
          reasoning = (case re_search reasoning_re result_text of
                         Some g \<Rightarrow> JStr g
                       | None \<Rightarrow> JStr ''Unable to parse reasoning'')\<rparr>"
  by (simp add: fallback_def clamp_def py_min_def py_max_def)

text \<open>
  C4, as the code has it. In the fallback path a reply with no number after a score label gets
  the default 0 and the clamp then raises it to 1; a reply with no quoted text after a reasoning
  label gets the placeholder.
\<close>

theorem C4_missing_score_is_clamped:
  assumes "client st abstract = (Content c, st')"
    and "json_loads env (strip c) = JSONDecodeError"
    and "re_search score_re (strip c) = None"
  shows "score (fst (evaluate_abstract env client st abstract)) = Fin 1
         \<and> (re_search reasoning_re (strip c) = None \<longrightarrow>
              reasoning (fst (evaluate_abstract env client st abstract))
                = JStr ''Unable to parse reasoning'')"
  using assms by (simp add: evaluate_abstract_def parse_reply_def fallback_no_score)

text \<open>The reply \<^verbatim>\<open>no idea\<close>: score 1 and the placeholder.\<close>

theorem C4_missing_score_is_clamped_witness:
  "reply_client (Content ''no idea'') 0 ''An abstract.'' = (Content ''no idea'', 1)
   \<and> json_loads text_env (strip ''no idea'') = JSONDecodeError
   \<and> re_search score_re (strip ''no idea'') = None
   \<and> re_search reasoning_re (strip ''no idea'') = None
   \<and> score (fst (evaluate_abstract text_env (reply_client (Content ''no idea'')) 0 ''An abstract.'')) = Fin 1
   \<and> reasoning (fst (evaluate_abstract text_env (reply_client (Content ''no idea'')) 0 ''An abstract.''))
       = JStr ''Unable to parse reasoning''"
proof -
  have s: "strip ''no idea'' = ''no idea''"
    by (simp add: strip_def isspace_def)
  have h1: "reply_client (Content ''no idea'') 0 ''An abstract.'' = (Content ''no idea'', 1)"
    by (simp add: reply_client_def)
  have h2: "json_loads text_env (strip ''no idea'') = JSONDecodeError"
    by (simp add: text_env_def not_json_def)
  have h3: "re_search score_re (strip ''no idea'') = None"
    by (simp add: s score_re_def lower_def)
  have h4: "re_search reasoning_re (strip ''no idea'') = None"
    by (simp add: s reasoning_re_def lower_def)
  show ?thesis
    using C4_missing_score_is_clamped [where client = "reply_client (Content ''no idea'')" and st = 0
        and abstract = "''An abstract.''" and st' = 1 and env = text_env and c = "''no idea''"]
      h1 h2 h3 h4
    by simp
qed

section \<open>Properties of evaluate_papers\<close>

subsection \<open>The loop\<close>

lemma expected_calls_filter:
  "expected_calls idx rs =
     map (\<lambda>i. idx + i) (filter (\<lambda>i. abstract_to_evaluate (rs ! i) \<noteq> None) [0..<length rs])"
proof (induction rs arbitrary: idx)
  case Nil
  then show ?case by simp
next
  case (Cons r rs)
  have upt: "[0..<length (r # rs)] = 0 # map Suc [0..<length rs]"
    by (simp add: upt_conv_Cons map_Suc_upt del: upt_Suc)
  show ?case
    unfolding upt by (simp add: Cons.IH filter_map comp_def)
qed

lemma process_rows_calls:
  "process_rows env client st idx rs = Inr (rs', calls, st') \<Longrightarrow> calls = expected_calls idx rs"
proof (induction rs arbitrary: st idx rs' calls st')
  case Nil
  then show ?case by simp
next
  case (Cons r rs)
  then show ?case
    by (auto split: option.splits sum.splits prod.splits)
qed

lemma process_rows_fields:
  "process_rows env client st idx rs = Inr (rs', calls, st') \<Longrightarrow>
   map paper_fields rs' = map paper_fields rs"
proof (induction rs arbitrary: st idx rs' calls st')
  case Nil
  then show ?case by simp
next
  case (Cons r rs)
  then show ?case
    by (auto simp: paper_fields_def split: option.splits sum.splits prod.splits)
qed

lemma process_rows_skipped:
  "process_rows env client st idx rs = Inr (rs', calls, st') \<Longrightarrow> i < length rs \<Longrightarrow>
   abstract_to_evaluate (rs ! i) = None \<Longrightarrow> rs' ! i = rs ! i"
proof (induction rs arbitrary: st idx rs' calls st' i)
  case Nil
  then show ?case by simp
next
  case (Cons r rs)
  then show ?case
    by (cases i) (auto split: option.splits sum.splits prod.splits)
qed

text \<open>
  The state that the loop leaves and the cells that it fills are those of the annotations
  returned for the abstracts of the rows, sent in order.
\<close>

lemma process_rows_annotations:
  "process_rows env client st idx rs = Inr (rs', calls, st') \<Longrightarrow>
   st' = snd (annotate_all env client st (abstracts_to_send rs))
   \<and> annotated_cells rs rs'
       = map (\<lambda>a. (score a, Some (reasoning a))) (fst (annotate_all env client st (abstracts_to_send rs)))"
proof (induction rs arbitrary: st idx rs' calls st')
  case Nil
  then show ?case
    by (simp add: abstracts_to_send_def annotated_cells_def)
next
  case (Cons r rs)
  show ?case
  proof (cases "abstract_to_evaluate r")
    case None
    with Cons.prems obtain rs1 where
      p: "process_rows env client st (Suc idx) rs = Inr (rs1, calls, st')" and r: "rs' = r # rs1"
      by (auto split: sum.splits prod.splits)
    from Cons.IH [OF p] None r show ?thesis
      by (simp add: abstracts_to_send_def annotated_cells_def)
  next
    case (Some a)
    obtain result st1 where e: "evaluate_abstract env client st a = (result, st1)"
      by (cases "evaluate_abstract env client st a")
    from Cons.prems Some e obtain rs1 calls1 where
      p: "process_rows env client st1 (Suc idx) rs = Inr (rs1, calls1, st')"
      and r: "rs' = r\<lparr>col_score := score result, col_reasoning := Some (reasoning result)\<rparr> # rs1"
      by (auto split: option.splits sum.splits prod.splits)
    from Cons.IH [OF p] Some e r show ?thesis
      by (simp add: abstracts_to_send_def annotated_cells_def split: prod.splits)
  qed
qed

lemma annotate_all_state:
  "snd (annotate_all env client st as) = foldl (\<lambda>s a. snd (client s a)) st as"
proof (induction as arbitrary: st)
  case Nil
  then show ?case by simp
next
  case (Cons a as)
  have "snd (evaluate_abstract env client st a) = snd (client st a)"
    by (simp add: evaluate_abstract_def split: prod.splits)
  with Cons.IH [of "snd (client st a)"] show ?case
    by (auto split: prod.splits)
qed

lemma annotate_all_valid:
  "list_all (\<lambda>a. valid_score (score a)) (fst (annotate_all env client st as))"
proof (induction as arbitrary: st)
  case Nil
  then show ?case by simp
next
  case (Cons a as)
  obtain result st1 where e: "evaluate_abstract env client st a = (result, st1)"
    by (cases "evaluate_abstract env client st a")
  obtain results st' where r: "annotate_all env client st1 as = (results, st')"
    by (cases "annotate_all env client st1 as")
  from Cons.IH [of st1] e r evaluate_abstract_score [OF e] show ?case
    by simp
qed

text \<open>
  The loop returns when every row to evaluate has a title and pandas stores each annotation
  that is returned.
\<close>

lemma process_rows_returns:
  "\<forall>r \<in> set rs. abstract_to_evaluate r \<noteq> None \<longrightarrow> col_title r \<noteq> None \<Longrightarrow>
   list_all (\<lambda>a. store_error env (score a) (reasoning a) = None)
     (fst (annotate_all env client st (abstracts_to_send rs))) \<Longrightarrow>
   \<exists>res. process_rows env client st idx rs = Inr res"
proof (induction rs arbitrary: st idx)
  case Nil
  then show ?case by simp
next
  case (Cons r rs)
  show ?case
  proof (cases "abstract_to_evaluate r")
    case None
    with Cons.prems have
      "list_all (\<lambda>a. store_error env (score a) (reasoning a) = None)
         (fst (annotate_all env client st (abstracts_to_send rs)))"
      by (simp add: abstracts_to_send_def)
    with Cons.IH [of st "Suc idx"] Cons.prems(1) None show ?thesis
      by (auto split: prod.splits)
  next
    case (Some a)
    with Cons.prems(1) obtain t where t: "col_title r = Some t" by auto
    obtain result st1 where e: "evaluate_abstract env client st a = (result, st1)"
      by (cases "evaluate_abstract env client st a")
    from Cons.prems(2) Some e have s: "store_error env (score result) (reasoning result) = None"
      and rest: "list_all (\<lambda>a. store_error env (score a) (reasoning a) = None)
         (fst (annotate_all env client st1 (abstracts_to_send rs)))"
      by (simp_all add: abstracts_to_send_def split: prod.splits)
    from Cons.IH [OF _ rest, of "Suc idx"] Cons.prems(1) Some t e s show ?thesis
      by (auto split: prod.splits)
  qed
qed

subsection \<open>What depends on the bibliographic fields only\<close>

lemma fields_abstract:
  "paper_fields r = paper_fields r' \<Longrightarrow> abstract_to_evaluate r = abstract_to_evaluate r'"
  by (simp add: paper_fields_def abstract_to_evaluate_def)

lemma fields_title: "paper_fields r = paper_fields r' \<Longrightarrow> col_title r = col_title r'"
  by (simp add: paper_fields_def)

lemma expected_calls_fields:
  "map paper_fields rs = map paper_fields rs' \<Longrightarrow> expected_calls idx rs = expected_calls idx rs'"
proof (induction rs arbitrary: rs' idx)
  case Nil
  then show ?case by simp
next
  case (Cons r rs)
  then obtain r' rest where rs': "rs' = r' # rest" by (cases rs') auto
  with Cons.prems have f: "paper_fields r = paper_fields r'" "map paper_fields rs = map paper_fields rest"
    by simp_all
  from Cons.IH [OF f(2), of "Suc idx"] rs' fields_abstract [OF f(1)] show ?case
    by simp
qed

lemma abstracts_to_send_fields:
  "map paper_fields rs = map paper_fields rs' \<Longrightarrow> abstracts_to_send rs = abstracts_to_send rs'"
proof (induction rs arbitrary: rs')
  case Nil
  then show ?case by (simp add: abstracts_to_send_def)
next
  case (Cons r rs)
  then obtain r' rest where rs': "rs' = r' # rest" by (cases rs') auto
  with Cons.prems have f: "paper_fields r = paper_fields r'" "map paper_fields rs = map paper_fields rest"
    by simp_all
  from Cons.IH [OF f(2)] rs' fields_abstract [OF f(1)] show ?case
    by (simp add: abstracts_to_send_def split: option.splits)
qed

lemma annotated_cells_fields:
  "map paper_fields rs = map paper_fields rs' \<Longrightarrow> annotated_cells rs out = annotated_cells rs' out"
proof (induction rs arbitrary: rs' out)
  case Nil
  then show ?case by (simp add: annotated_cells_def)
next
  case (Cons r rs)
  then obtain r' rest where rs': "rs' = r' # rest" by (cases rs') auto
  with Cons.prems have f: "paper_fields r = paper_fields r'" "map paper_fields rs = map paper_fields rest"
    by simp_all
  show ?case
  proof (cases out)
    case Nil
    with rs' show ?thesis by (simp add: annotated_cells_def)
  next
    case (Cons o1 out1)
    with Cons.IH [OF f(2), of out1] rs' fields_abstract [OF f(1)] show ?thesis
      by (simp add: annotated_cells_def)
  qed
qed

lemma titled_fields:
  assumes "map paper_fields rs = map paper_fields rs'"
    and "\<forall>r\<in>set rs'. abstract_to_evaluate r \<noteq> None \<longrightarrow> col_title r \<noteq> None"
  shows "\<forall>r\<in>set rs. abstract_to_evaluate r \<noteq> None \<longrightarrow> col_title r \<noteq> None"
proof
  fix r
  assume "r \<in> set rs"
  then have "paper_fields r \<in> set (map paper_fields rs')"
    unfolding assms(1) [symmetric] by simp
  then obtain r' where r': "r' \<in> set rs'" "paper_fields r = paper_fields r'" by auto
  with assms(2) fields_abstract [OF r'(2)] fields_title [OF r'(2)]
  show "abstract_to_evaluate r \<noteq> None \<longrightarrow> col_title r \<noteq> None" by simp
qed

lemma add_columns_fields: "map paper_fields (rows (add_columns df)) = map paper_fields (rows df)"
  by (simp add: add_columns_def Let_def paper_fields_def comp_def)

lemma add_columns_present:
  "has_score df \<Longrightarrow> has_reasoning df \<Longrightarrow> add_columns df = df"
  by (simp add: add_columns_def)

subsection \<open>The run\<close>

lemma head_take: "0 \<le> n \<Longrightarrow> head n xs = take (nat n) xs"
  by (simp add: head_def)

lemma selected_frame:
  "(case num_rows of AllRows \<Rightarrow> df | Rows n \<Rightarrow> df\<lparr>rows := head n (rows df)\<rparr> | NotANumber \<Rightarrow> df)
     = df\<lparr>rows := select_rows num_rows (rows df)\<rparr>"
  by (cases num_rows) (simp_all add: select_rows_def)

lemma evaluate_papers_Inr:
  assumes "evaluate_papers env client st df num_rows = Inr ev"
  shows "process_rows env client st 0
            (rows (add_columns (df\<lparr>rows := select_rows num_rows (rows df)\<rparr>)))
          = Inr (rows (written ev), evaluated ev, client_state ev)"
  using assms
  by (auto simp: evaluate_papers_def selected_frame Let_def split: sum.splits prod.splits)

lemma selected_fields:
  "map paper_fields (rows (add_columns (df\<lparr>rows := select_rows num_rows (rows df)\<rparr>)))
     = map paper_fields (select_rows num_rows (rows df))"
  by (simp add: add_columns_fields)

lemma evaluate_papers_fields:
  assumes "evaluate_papers env client st df num_rows = Inr ev"
  shows "map paper_fields (rows (written ev)) = map paper_fields (select_rows num_rows (rows df))"
  using process_rows_fields [OF evaluate_papers_Inr [OF assms]] by (simp add: selected_fields)

lemma evaluate_papers_calls:
  assumes "evaluate_papers env client st df num_rows = Inr ev"
  shows "evaluated ev =
           filter (\<lambda>i. abstract_to_evaluate (select_rows num_rows (rows df) ! i) \<noteq> None)
             [0..<length (select_rows num_rows (rows df))]"
proof -
  have "evaluated ev =
      expected_calls 0 (rows (add_columns (df\<lparr>rows := select_rows num_rows (rows df)\<rparr>)))"
    using evaluate_papers_Inr [OF assms] by (rule process_rows_calls)
  also have "\<dots> = expected_calls 0 (select_rows num_rows (rows df))"
    using selected_fields by (rule expected_calls_fields)
  finally show ?thesis
    by (simp add: expected_calls_filter)
qed

lemma evaluate_papers_state:
  assumes "evaluate_papers env client st df num_rows = Inr ev"
  shows "client_state ev =
           foldl (\<lambda>s a. snd (client s a)) st (abstracts_to_send (select_rows num_rows (rows df)))"
proof -
  have a: "abstracts_to_send (rows (add_columns (df\<lparr>rows := select_rows num_rows (rows df)\<rparr>)))
      = abstracts_to_send (select_rows num_rows (rows df))"
    using selected_fields by (rule abstracts_to_send_fields)
  from process_rows_annotations [OF evaluate_papers_Inr [OF assms]] show ?thesis
    unfolding a by (simp add: annotate_all_state)
qed

lemma evaluate_papers_cells:
  assumes "evaluate_papers env client st df num_rows = Inr ev"
  shows "annotated_cells (select_rows num_rows (rows df)) (rows (written ev))
           = map (\<lambda>a. (score a, Some (reasoning a)))
               (fst (annotate_all env client st (abstracts_to_send (select_rows num_rows (rows df)))))"
proof -
  have a: "abstracts_to_send (rows (add_columns (df\<lparr>rows := select_rows num_rows (rows df)\<rparr>)))
      = abstracts_to_send (select_rows num_rows (rows df))"
    using selected_fields by (rule abstracts_to_send_fields)
  have c: "annotated_cells (rows (add_columns (df\<lparr>rows := select_rows num_rows (rows df)\<rparr>))) out
      = annotated_cells (select_rows num_rows (rows df)) out" for out
    using selected_fields by (rule annotated_cells_fields)
  from process_rows_annotations [OF evaluate_papers_Inr [OF assms]] show ?thesis
    unfolding a c by simp
qed

lemma evaluate_papers_skipped:
  assumes "has_score df" and "has_reasoning df"
    and "evaluate_papers env client st df num_rows = Inr ev"
    and "i < length (select_rows num_rows (rows df))"
    and "abstract_to_evaluate (select_rows num_rows (rows df) ! i) = None"
  shows "rows (written ev) ! i = select_rows num_rows (rows df) ! i"
proof -
  have "add_columns (df\<lparr>rows := select_rows num_rows (rows df)\<rparr>)
      = df\<lparr>rows := select_rows num_rows (rows df)\<rparr>"
    using assms(1,2) by (simp add: add_columns_present)
  with evaluate_papers_Inr [OF assms(3)] have
    "process_rows env client st 0 (select_rows num_rows (rows df))
       = Inr (rows (written ev), evaluated ev, client_state ev)"
    by simp
  from process_rows_skipped [OF this assms(4,5)] show ?thesis .
qed

lemma evaluate_papers_returns:
  assumes "\<forall>r\<in>set (select_rows num_rows (rows df)). abstract_to_evaluate r \<noteq> None \<longrightarrow> col_title r \<noteq> None"
    and "list_all (\<lambda>a. store_error env (score a) (reasoning a) = None)
           (fst (annotate_all env client st (abstracts_to_send (select_rows num_rows (rows df)))))"
  shows "\<exists>ev. evaluate_papers env client st df num_rows = Inr ev"
proof -
  let ?rs = "rows (add_columns (df\<lparr>rows := select_rows num_rows (rows df)\<rparr>))"
  have t: "\<forall>r\<in>set ?rs. abstract_to_evaluate r \<noteq> None \<longrightarrow> col_title r \<noteq> None"
    using selected_fields assms(1) by (rule titled_fields)
  have a: "abstracts_to_send ?rs = abstracts_to_send (select_rows num_rows (rows df))"
    using selected_fields by (rule abstracts_to_send_fields)
  have s: "list_all (\<lambda>a. store_error env (score a) (reasoning a) = None)
           (fst (annotate_all env client st (abstracts_to_send ?rs)))"
    unfolding a using assms(2) .
  from t s have "\<exists>res. process_rows env client st 0 ?rs = Inr res"
    by (rule process_rows_returns)
  then obtain res where "process_rows env client st 0 ?rs = Inr res" ..
  then show ?thesis
    by (cases res) (simp add: evaluate_papers_def selected_frame Let_def)
qed

lemma filter_take_nth:
  "filter (\<lambda>i. P (take n rs ! i)) [0..<min n (length rs)] = filter (\<lambda>i. P (rs ! i)) [0..<min n (length rs)]"
  by (rule filter_cong) simp_all

subsection \<open>Concrete runs\<close>

lemma unscored_rows_length: "length (rows unscored_snapshot) = 25"
  by (simp add: unscored_snapshot_def)

lemma unscored_rows_titled:
  "r \<in> set (rows unscored_snapshot) \<Longrightarrow> col_title r \<noteq> None \<and> abstract_to_evaluate r \<noteq> None"
  by (auto simp: unscored_snapshot_def paper_row_def abstract_to_evaluate_def strip_def isspace_def)

lemma timeout_annotation:
  "evaluate_abstract text_env (reply_client (Raised ''timeout'')) st a
     = (\<lparr>score = Fin 0, reasoning = JStr ''Error: timeout''\<rparr>, Suc st)"
  by (simp add: evaluate_abstract_def reply_client_def parse_reply_def text_env_def exn_name_def)

lemma score7_annotation:
  "evaluate_abstract text_env (reply_client (Content ''score: 7'')) st a
     = (\<lparr>score = Fin 7, reasoning = JStr ''Unable to parse reasoning''\<rparr>, Suc st)"
  by (simp add: evaluate_abstract_def reply_client_def parse_reply_def text_env_def not_json_def
      fallback_def strip_def isspace_def score_re_def reasoning_re_def opt_def many1_def number_def
      lower_def isdigit_def isquote_def clamp_def py_min_def py_max_def decimal_literal_def digits_value_def)

lemma text_store: "store_error text_env s (JStr t) = None"
  by (simp add: text_env_def store_text_def)

lemma score7_all:
  "annotate_all text_env (reply_client (Content ''score: 7'')) st as
     = (replicate (length as) \<lparr>score = Fin 7, reasoning = JStr ''Unable to parse reasoning''\<rparr>,
        st + length as)"
  by (induction as arbitrary: st) (simp_all add: score7_annotation)

lemma score7_stored:
  "list_all (\<lambda>a. store_error text_env (score a) (reasoning a) = None)
     (fst (annotate_all text_env (reply_client (Content ''score: 7'')) st as))"
  by (simp add: score7_all list_all_iff text_store)

lemma unscored_run_returns:
  "\<exists>ev. evaluate_papers text_env (reply_client (Content ''score: 7'')) st unscored_snapshot (Rows n) = Inr ev"
proof (rule evaluate_papers_returns)
  show "\<forall>r\<in>set (select_rows (Rows n) (rows unscored_snapshot)).
          abstract_to_evaluate r \<noteq> None \<longrightarrow> col_title r \<noteq> None"
    by (auto simp: select_rows_def head_def dest!: in_set_takeD unscored_rows_titled)
  show "list_all (\<lambda>a. store_error text_env (score a) (reasoning a) = None)
     (fst (annotate_all text_env (reply_client (Content ''score: 7'')) st
            (abstracts_to_send (select_rows (Rows n) (rows unscored_snapshot)))))"
    by (rule score7_stored)
qed

lemma first_five:
  "take 5 (rows unscored_snapshot) =
     map (\<lambda>i. paper_row (replicate (Suc i) CHR ''x'') ''An abstract.'') [0, 1, 2, 3, 4]"
  by (simp add: unscored_snapshot_def take_map upt_rec eval_nat_numeral)

lemma first_run:
  "evaluate_papers text_env (reply_client (Content ''score: 7'')) 0 unscored_snapshot (Rows 5)
     = Inr \<lparr>written = \<lparr>has_score = True, has_reasoning = True,
                rows = map (\<lambda>i. (paper_row (replicate (Suc i) CHR ''x'') ''An abstract.'')
                                  \<lparr>col_score := Fin 7, col_reasoning := Some (JStr ''Unable to parse reasoning'')\<rparr>)
                           [0, 1, 2, 3, 4]\<rparr>,
            evaluated = [0, 1, 2, 3, 4], client_state = 5\<rparr>"
proof -
  have "rows (unscored_snapshot\<lparr>rows := head 5 (rows unscored_snapshot)\<rparr>)
      = map (\<lambda>i. paper_row (replicate (Suc i) CHR ''x'') ''An abstract.'') [0, 1, 2, 3, 4]"
    using first_five by (simp add: head_def)
  then show ?thesis
    by (simp add: evaluate_papers_def add_columns_def unscored_snapshot_def text_store
        paper_row_def abstract_to_evaluate_def strip_def isspace_def score7_annotation Let_def)
qed

subsection \<open>The claims on evaluate_papers\<close>

text \<open>
  C2, as the code has it. With an integer limit that is not negative, a run that returns has
  taken the first \<open>limit\<close> rows and called the service for exactly those of them whose abstract
  is present and not blank, in snapshot order and whatever score they carry: the indices
  evaluated are theirs, the state of the service is that of the calls on their abstracts, one
  after the other, and the score and reasoning cells written for them are those of the
  annotations returned. The rows written are these first \<open>limit\<close> rows, bibliographic fields
  unchanged. On 25 rows that all have an abstract, limit 5 evaluates rows 0 to 4 and writes 5
  rows, and limit 30 evaluates all 25.
\<close>

theorem C2_first_rows_evaluated:
  assumes "0 \<le> limit" and "evaluate_papers env client st df (Rows limit) = Inr ev"
  shows "evaluated ev =
           filter (\<lambda>i. abstract_to_evaluate (rows df ! i) \<noteq> None) [0..<min (nat limit) (length (rows df))]
         \<and> client_state ev =
             foldl (\<lambda>s a. snd (client s a)) st (abstracts_to_send (take (nat limit) (rows df)))
         \<and> annotated_cells (take (nat limit) (rows df)) (rows (written ev))
             = map (\<lambda>a. (score a, Some (reasoning a)))
                 (fst (annotate_all env client st (abstracts_to_send (take (nat limit) (rows df)))))
         \<and> map paper_fields (rows (written ev)) = take (nat limit) (map paper_fields (rows df))
         \<and> length (rows (written ev)) = min (nat limit) (length (rows df))
         \<and> (length (rows df) = 25 \<and> (\<forall>r\<in>set (rows df). abstract_to_evaluate r \<noteq> None) \<longrightarrow>
              (limit = 5 \<longrightarrow> evaluated ev = [0, 1, 2, 3, 4] \<and> length (rows (written ev)) = 5)
              \<and> (limit = 30 \<longrightarrow> evaluated ev = [0..<25]))"
proof -
  have sel: "select_rows (Rows limit) (rows df) = take (nat limit) (rows df)"
    using assms(1) by (simp add: select_rows_def head_take)
  have a: "evaluated ev =
           filter (\<lambda>i. abstract_to_evaluate (rows df ! i) \<noteq> None) [0..<min (nat limit) (length (rows df))]"
  proof -
    have "evaluated ev =
        filter (\<lambda>i. abstract_to_evaluate (take (nat limit) (rows df) ! i) \<noteq> None)
          [0..<min (nat limit) (length (rows df))]"
      using evaluate_papers_calls [OF assms(2)] unfolding sel by (simp add: min.commute)
    with filter_take_nth [of "\<lambda>r. abstract_to_evaluate r \<noteq> None" "nat limit" "rows df"]
    show ?thesis by simp
  qed
  have b: "client_state ev =
             foldl (\<lambda>s a. snd (client s a)) st (abstracts_to_send (take (nat limit) (rows df)))"
    using evaluate_papers_state [OF assms(2)] unfolding sel .
  have c: "annotated_cells (take (nat limit) (rows df)) (rows (written ev))
             = map (\<lambda>a. (score a, Some (reasoning a)))
                 (fst (annotate_all env client st (abstracts_to_send (take (nat limit) (rows df)))))"
    using evaluate_papers_cells [OF assms(2)] unfolding sel .
  have d: "map paper_fields (rows (written ev)) = take (nat limit) (map paper_fields (rows df))"
    using evaluate_papers_fields [OF assms(2)] unfolding sel by (simp add: take_map)
  have "length (map paper_fields (rows (written ev))) = min (nat limit) (length (rows df))"
    unfolding d by (simp add: min.commute)
  then have e: "length (rows (written ev)) = min (nat limit) (length (rows df))" by simp
  have f: "evaluated ev = [0..<min (nat limit) 25]"
    if "length (rows df) = 25" and "\<forall>r\<in>set (rows df). abstract_to_evaluate r \<noteq> None"
  proof -
    have "abstract_to_evaluate (rows df ! i) \<noteq> None" if "i < min (nat limit) 25" for i
      using that \<open>length (rows df) = 25\<close> \<open>\<forall>r\<in>set (rows df). abstract_to_evaluate r \<noteq> None\<close>
      by (simp add: nth_mem)
    then show ?thesis
      unfolding a \<open>length (rows df) = 25\<close> by (simp add: filter_id_conv)
  qed
  have g: "length (rows df) = 25 \<and> (\<forall>r\<in>set (rows df). abstract_to_evaluate r \<noteq> None) \<longrightarrow>
              (limit = 5 \<longrightarrow> evaluated ev = [0, 1, 2, 3, 4] \<and> length (rows (written ev)) = 5)
              \<and> (limit = 30 \<longrightarrow> evaluated ev = [0..<25])"
    using f e by (auto simp: upt_rec)
  from a b c d e g show ?thesis by blast
qed

text \<open>
  On the snapshot of 25 papers a run with limit 5 evaluates rows 0 to 4 and writes 5 rows; a
  run with limit 30 on the same snapshot evaluates all 25.
\<close>

theorem C2_first_rows_evaluated_witness:
  "calls_of (evaluate_papers text_env (reply_client (Content ''score: 7'')) 0 unscored_snapshot (Rows 5))
     = Some [0, 1, 2, 3, 4]
   \<and> map_option length
        (rows_of (evaluate_papers text_env (reply_client (Content ''score: 7'')) 0 unscored_snapshot (Rows 5)))
       = Some 5
   \<and> calls_of (evaluate_papers text_env (reply_client (Content ''score: 7'')) 0 unscored_snapshot (Rows 30))
       = Some [0..<25]"
proof -
  have all: "\<forall>r\<in>set (rows unscored_snapshot). abstract_to_evaluate r \<noteq> None"
    by (simp add: unscored_rows_titled)
  from unscored_run_returns obtain ev5 where
    ev5: "evaluate_papers text_env (reply_client (Content ''score: 7'')) 0 unscored_snapshot (Rows 5) = Inr ev5" ..
  from unscored_run_returns obtain ev30 where
    ev30: "evaluate_papers text_env (reply_client (Content ''score: 7'')) 0 unscored_snapshot (Rows 30) = Inr ev30" ..
  have a: "evaluated ev5 = [0, 1, 2, 3, 4] \<and> length (rows (written ev5)) = 5"
    using C2_first_rows_evaluated [OF _ ev5] all unscored_rows_length by (simp add: upt_rec)
  have b: "evaluated ev30 = [0..<25]"
    using C2_first_rows_evaluated [OF _ ev30] all unscored_rows_length by simp
  from a b ev5 ev30 show ?thesis
    by (simp add: calls_of_def rows_of_def)
qed

text \<open>
  C2 as stated fails. A record that has a score of 8 is evaluated again. On the 25 unscored
  papers the run with limit 5 writes a file of 5 rows, so no unscored row is left in it, and
  a run with limit 30 on that file evaluates its five scored rows again.
\<close>

theorem C2_counterexample:
  "map col_score (rows scored_snapshot) = [Fin 8]
   \<and> calls_of (evaluate_papers text_env (reply_client (Content ''score: 7'')) 0 scored_snapshot (Rows 1))
       = Some [0]
   \<and> map_option length
        (rows_of (evaluate_papers text_env (reply_client (Content ''score: 7'')) 0 unscored_snapshot (Rows 5)))
       = Some 5
   \<and> calls_of (evaluate_papers text_env (reply_client (Content ''score: 7'')) 5
         (written_of (evaluate_papers text_env (reply_client (Content ''score: 7'')) 0 unscored_snapshot (Rows 5)))
         (Rows 30))
       = Some [0, 1, 2, 3, 4]"
proof -
  have a: "map col_score (rows scored_snapshot) = [Fin 8]
   \<and> calls_of (evaluate_papers text_env (reply_client (Content ''score: 7'')) 0 scored_snapshot (Rows 1))
       = Some [0]"
    by (simp add: scored_snapshot_def paper_row_def calls_of_def evaluate_papers_def head_def
        add_columns_def abstract_to_evaluate_def strip_def isspace_def score7_annotation text_store)
  have b: "calls_of (evaluate_papers text_env (reply_client (Content ''score: 7'')) 5
         (written_of (evaluate_papers text_env (reply_client (Content ''score: 7'')) 0 unscored_snapshot (Rows 5)))
         (Rows 30))
       = Some [0, 1, 2, 3, 4]"
    unfolding first_run
    by (simp add: written_of_def calls_of_def evaluate_papers_def head_def add_columns_def
        paper_row_def abstract_to_evaluate_def strip_def isspace_def score7_annotation text_store)
  from a b show ?thesis
    by (simp add: first_run rows_of_def)
qed

text \<open>
  C3, as the code has it. For an integer limit, the output of a run that returns holds the rows
  of \<^verbatim>\<open>df.head(limit)\<close>, bibliographic fields unchanged and in order: the first \<open>limit\<close> rows
  when the limit is not negative (exactly \<open>limit\<close> rows, and none past the limit, when the
  snapshot has more), and all rows but the last \<open>-limit\<close> when it is negative. The run returns,
  and so writes this output, when every row among these that has an abstract to evaluate has a
  title and pandas stores each annotation returned for them.
\<close>

theorem C3_output_truncated:
  "(\<forall>ev. evaluate_papers env client st df (Rows limit) = Inr ev \<longrightarrow>
       map paper_fields (rows (written ev))
         = (if 0 \<le> limit then take (nat limit) (map paper_fields (rows df))
            else take (length (rows df) - nat (- limit)) (map paper_fields (rows df)))
       \<and> (0 \<le> limit \<and> nat limit < length (rows df) \<longrightarrow> length (rows (written ev)) = nat limit))
   \<and> ((\<forall>r\<in>set (head limit (rows df)). abstract_to_evaluate r \<noteq> None \<longrightarrow> col_title r \<noteq> None)
        \<and> list_all (\<lambda>a. store_error env (score a) (reasoning a) = None)
             (fst (annotate_all env client st (abstracts_to_send (head limit (rows df)))))
      \<longrightarrow> (\<exists>ev. evaluate_papers env client st df (Rows limit) = Inr ev))"
proof (intro conjI allI impI)
  fix ev
  assume ev: "evaluate_papers env client st df (Rows limit) = Inr ev"
  show f: "map paper_fields (rows (written ev))
         = (if 0 \<le> limit then take (nat limit) (map paper_fields (rows df))
            else take (length (rows df) - nat (- limit)) (map paper_fields (rows df)))"
    using evaluate_papers_fields [OF ev] by (simp add: select_rows_def head_def take_map)
  assume "0 \<le> limit \<and> nat limit < length (rows df)"
  then have "length (map paper_fields (rows (written ev))) = nat limit"
    unfolding f by simp
  then show "length (rows (written ev)) = nat limit" by simp
next
  assume "(\<forall>r\<in>set (head limit (rows df)). abstract_to_evaluate r \<noteq> None \<longrightarrow> col_title r \<noteq> None)
        \<and> list_all (\<lambda>a. store_error env (score a) (reasoning a) = None)
             (fst (annotate_all env client st (abstracts_to_send (head limit (rows df)))))"
  then show "\<exists>ev. evaluate_papers env client st df (Rows limit) = Inr ev"
    by (intro evaluate_papers_returns) (simp_all add: select_rows_def)
qed

text \<open>The 25 papers with limit 5: the run returns and the file written has the first five papers.\<close>

theorem C3_output_truncated_witness:
  "map_option length
        (rows_of (evaluate_papers text_env (reply_client (Content ''score: 7'')) 0 unscored_snapshot (Rows 5)))
       = Some 5
   \<and> map_option (map paper_fields)
        (rows_of (evaluate_papers text_env (reply_client (Content ''score: 7'')) 0 unscored_snapshot (Rows 5)))
       = Some (take 5 (map paper_fields (rows unscored_snapshot)))"
proof -
  have h1: "\<forall>r\<in>set (head 5 (rows unscored_snapshot)).
              abstract_to_evaluate r \<noteq> None \<longrightarrow> col_title r \<noteq> None"
    by (auto simp: head_def dest!: in_set_takeD unscored_rows_titled)
  have h2: "list_all (\<lambda>a. store_error text_env (score a) (reasoning a) = None)
     (fst (annotate_all text_env (reply_client (Content ''score: 7'')) 0
            (abstracts_to_send (head 5 (rows unscored_snapshot)))))"
    by (rule score7_stored)
  note th = C3_output_truncated [of text_env "reply_client (Content ''score: 7'')" 0 unscored_snapshot 5]
  from th h1 h2 obtain ev where
    ev: "evaluate_papers text_env (reply_client (Content ''score: 7'')) 0 unscored_snapshot (Rows 5) = Inr ev"
    by blast
  with th have "map paper_fields (rows (written ev)) = take (nat 5) (map paper_fields (rows unscored_snapshot))"
    and "length (rows (written ev)) = nat 5"
    by (simp_all add: unscored_rows_length)
  with ev show ?thesis
    by (simp add: rows_of_def)
qed

text \<open>
  C3 as stated fails. With limit 1 on two papers of which the first has no title, the run
  raises \<^verbatim>\<open>TypeError\<close> and writes nothing; with limit -1 on two papers, the output holds the
  first paper.
\<close>

theorem C3_counterexample:
  "evaluate_papers text_env (reply_client (Content ''score: 7'')) 0 untitled_snapshot (Rows 1)
     = Inl TypeError
   \<and> map col_id (rows mixed_snapshot) = [Some ''x'', Some ''y'']
   \<and> map_option (map col_id)
        (rows_of (evaluate_papers text_env (reply_client (Content ''score: 7'')) 0 mixed_snapshot (Rows (- 1))))
       = Some [Some ''x'']"
  by (simp add: untitled_snapshot_def mixed_snapshot_def paper_row_def rows_of_def evaluate_papers_def
      head_def add_columns_def abstract_to_evaluate_def strip_def isspace_def score7_annotation text_store)

text \<open>
  C5, as the code has it. A run, with any \<^verbatim>\<open>num_rows\<close>, over a snapshot that has both annotation
  columns: when it returns, the rows written are the rows that \<^verbatim>\<open>num_rows\<close> selects,
  bibliographic fields unchanged; a selected row whose abstract is missing or blank is written
  unchanged; every selected row with an abstract has been sent to the service again, in order
  and whatever its score, and its score and reasoning cells are those of the annotation
  returned for it, with a score of 0 or from 1 to 10.
\<close>

theorem C5_rerun_rescores:
  assumes "has_score df" and "has_reasoning df"
    and "evaluate_papers env client st df num_rows = Inr ev"
  shows "map paper_fields (rows (written ev)) = map paper_fields (select_rows num_rows (rows df))
       \<and> (\<forall>i<length (select_rows num_rows (rows df)).
            abstract_to_evaluate (select_rows num_rows (rows df) ! i) = None \<longrightarrow>
            rows (written ev) ! i = select_rows num_rows (rows df) ! i)
       \<and> evaluated ev =
           filter (\<lambda>i. abstract_to_evaluate (select_rows num_rows (rows df) ! i) \<noteq> None)
             [0..<length (select_rows num_rows (rows df))]
       \<and> client_state ev =
           foldl (\<lambda>s a. snd (client s a)) st (abstracts_to_send (select_rows num_rows (rows df)))
       \<and> annotated_cells (select_rows num_rows (rows df)) (rows (written ev))
           = map (\<lambda>a. (score a, Some (reasoning a)))
               (fst (annotate_all env client st (abstracts_to_send (select_rows num_rows (rows df)))))
       \<and> list_all (\<lambda>a. valid_score (score a))
           (fst (annotate_all env client st (abstracts_to_send (select_rows num_rows (rows df)))))"
proof -
  have a: "\<forall>i<length (select_rows num_rows (rows df)).
            abstract_to_evaluate (select_rows num_rows (rows df) ! i) = None \<longrightarrow>
            rows (written ev) ! i = select_rows num_rows (rows df) ! i"
    using evaluate_papers_skipped [OF assms] by simp
  show ?thesis
    by (intro conjI a evaluate_papers_fields [OF assms(3)] evaluate_papers_calls [OF assms(3)]
        evaluate_papers_state [OF assms(3)] evaluate_papers_cells [OF assms(3)] annotate_all_valid)
qed

text \<open>Two scored papers, one with a blank abstract: the first is scored again, the second kept.\<close>

theorem C5_rerun_rescores_witness:
  "has_score mixed_snapshot \<and> has_reasoning mixed_snapshot
   \<and> calls_of (evaluate_papers text_env (reply_client (Content ''score: 7'')) 0 mixed_snapshot AllRows)
       = Some [0]
   \<and> map_option (map col_score)
        (rows_of (evaluate_papers text_env (reply_client (Content ''score: 7'')) 0 mixed_snapshot AllRows))
       = Some [Fin 7, Fin 4]
   \<and> map_option (map col_reasoning)
        (rows_of (evaluate_papers text_env (reply_client (Content ''score: 7'')) 0 mixed_snapshot AllRows))
       = Some [Some (JStr ''Unable to parse reasoning''), Some (JStr ''Niche.'')]"
proof -
  have h1: "has_score mixed_snapshot" and h2: "has_reasoning mixed_snapshot"
    by (simp_all add: mixed_snapshot_def)
  have ev: "evaluate_papers text_env (reply_client (Content ''score: 7'')) 0 mixed_snapshot AllRows
      = Inr \<lparr>written = mixed_snapshot\<lparr>rows :=
                 [(paper_row ''x'' ''An abstract.'')\<lparr>col_score := Fin 7,
                     col_reasoning := Some (JStr ''Unable to parse reasoning'')\<rparr>,
                  (paper_row ''y'' ''  '')\<lparr>col_score := Fin 4, col_reasoning := Some (JStr ''Niche.'')\<rparr>]\<rparr>,
              evaluated = [0], client_state = 1\<rparr>"
    by (simp add: mixed_snapshot_def paper_row_def evaluate_papers_def text_store
        add_columns_def abstract_to_evaluate_def strip_def isspace_def score7_annotation)
  from C5_rerun_rescores [OF h1 h2 ev] h1 h2 ev show ?thesis
    by (simp add: calls_of_def rows_of_def paper_row_def)
qed

text \<open>
  C5 as stated fails: a paper with score 8 is evaluated again, and when the call fails its
  score becomes 0 and its reasoning the error text.
\<close>

theorem C5_counterexample:
  "map col_score (rows scored_snapshot) = [Fin 8]
   \<and> map_option (map col_score)
        (rows_of (evaluate_papers text_env (reply_client (Raised ''timeout'')) 0 scored_snapshot AllRows))
       = Some [Fin 0]
   \<and> map_option (map col_reasoning)
        (rows_of (evaluate_papers text_env (reply_client (Raised ''timeout'')) 0 scored_snapshot AllRows))
       = Some [Some (JStr ''Error: timeout'')]"
  by (simp add: scored_snapshot_def paper_row_def rows_of_def evaluate_papers_def text_store
      add_columns_def abstract_to_evaluate_def strip_def isspace_def timeout_annotation)

section \<open>Properties of get_papers\<close>



lemma div_up:
  fixes P :: int
  assumes "0 < P"
  shows "(a + P - 1) div P = - (- a div P)"
proof (cases "a mod P = 0")
  case True
  have eq: "a + P - 1 = P * (a div P) + (P - 1)"
    using True mult_div_mod_eq [of P a] by simp
  have "(a + P - 1) div P = a div P"
    by (rule int_div_pos_eq [OF eq]) (use assms in simp_all)
  moreover have "- a div P = - (a div P)"
    using True assms by (simp add: zdiv_zminus1_eq_if)
  ultimately show ?thesis by simp
next
  case False
  have "0 \<le> a mod P" "a mod P < P"
    using assms by (rule pos_mod_sign, rule pos_mod_bound)
  with False have r: "0 < a mod P" "a mod P < P"
    by linarith+
  have eq: "a + P - 1 = P * (a div P + 1) + (a mod P - 1)"
    using mult_div_mod_eq [of P a] by (simp add: algebra_simps)
  have "(a + P - 1) div P = a div P + 1"
    by (rule int_div_pos_eq [OF eq]) (use r in simp_all)
  moreover have "- a div P = - (a div P) - 1"
    using False assms by (simp add: zdiv_zminus1_eq_if)
  ultimately show ?thesis by simp
qed

lemma total_pages_ceiling:
  fixes P :: int
  assumes "0 < P"
  shows "(int T + P - 1) div P = \<lceil>real T / real_of_int P\<rceil>"
proof -
  have "\<lceil>real T / real_of_int P\<rceil> = \<lceil>real_of_int (int T) / real_of_int P\<rceil>" by simp
  also have "\<dots> = - (- int T div P)" by (rule ceiling_divide_eq_div)
  also have "\<dots> = (int T + P - 1) div P"
    using assms by (simp add: div_up)
  finally show ?thesis by simp
qed

lemma concat_pages:
  "concat (map (\<lambda>k. take p (drop (k * p) xs)) [0..<n]) = take (n * p) xs"
proof (induction n)
  case 0
  then show ?case by simp
next
  case (Suc n)
  have "Suc n * p = n * p + p" by simp
  then have "take (Suc n * p) xs = take (n * p) xs @ take p (drop (n * p) xs)"
    by (simp only: take_add)
  with Suc show ?case by simp
qed

lemma total_pages_cover:
  fixes P :: int
  assumes "0 < P"
  shows "int T \<le> ((int T + P - 1) div P) * P"
proof -
  have "int T + P - 1 = ((int T + P - 1) div P) * P + (int T + P - 1) mod P"
    by simp
  moreover have "(int T + P - 1) mod P \<le> P - 1"
    using assms pos_mod_bound [of P "int T + P - 1"] by simp
  ultimately show ?thesis by linarith
qed

lemma set_insert_by: "set (insert_by le x xs) = insert x (set xs)"
  by (induction xs) auto

lemma set_sort_by_le: "set (sort_by_le le xs) = set xs"
  by (induction xs) (auto simp: sort_by_le_def set_insert_by)

lemma length_insert_by: "length (insert_by le x xs) = Suc (length xs)"
  by (induction xs) auto

lemma length_sort_by_le: "length (sort_by_le le xs) = length xs"
  by (induction xs) (auto simp: sort_by_le_def length_insert_by)

lemma set_sort_values: "set (sort_values isna le dir xs) = set xs"
  by (auto simp: sort_values_def set_sort_by_le)

lemma length_sort_values: "length (sort_values isna le dir xs) = length xs"
  by (simp add: sort_values_def length_sort_by_le sum_length_filter_compl add.commute)

lemma set_sort_rows: "set (sort_rows q sc rs) = set rs"
  by (simp add: sort_rows_def set_sort_values split: sort_column.splits)

lemma length_sort_rows: "length (sort_rows q sc rs) = length rs"
  by (simp add: sort_rows_def length_sort_values split: sort_column.splits)


lemma filters_ignore_page: "apply_filters env (q\<lparr>page := pg\<rparr>) df = apply_filters env q df"
  by (simp add: apply_filters_def split: sum.splits)

lemma sort_rows_ignore_page: "sort_rows (q\<lparr>page := pg\<rparr>) sc rs = sort_rows q sc rs"
  by (simp add: sort_rows_def split: sort_column.splits)

lemma search_filter_Nil: "search_filter env s [] = Inr rs \<Longrightarrow> rs = []"
  by (auto simp: search_filter_def split: option.splits if_splits)

lemma category_filter_Nil: "category_filter env s [] = Inr rs \<Longrightarrow> rs = []"
  by (auto simp: category_filter_def split: option.splits if_splits)

lemma apply_filters_Nil: "rows df = [] \<Longrightarrow> apply_filters env q df = Inr rs \<Longrightarrow> rs = []"
  by (auto simp: apply_filters_def min_score_filter_def max_score_filter_def
      dest!: search_filter_Nil category_filter_Nil split: sum.splits option.splits)

lemma get_papers_page:
  assumes "valid_query q" and "apply_filters env q df = Inr matching" and "1 \<le> pg"
  shows "get_papers env (q\<lparr>page := pg\<rparr>) df = Inr (page_response q df matching pg)"
proof (cases "rows df = []")
  case True
  with assms(2) have "matching = []" by (simp add: apply_filters_Nil)
  with True assms show ?thesis
    by (simp add: get_papers_def valid_query_def page_response_def sort_rows_def sort_values_def
        sort_by_le_def split: sort_column.splits)
next
  case False
  have P: "0 < per_page q" using assms(1) by (simp add: valid_query_def)
  have n: "nat ((pg - 1) * per_page q) = nat (pg - 1) * nat (per_page q)"
    using assms(3) P by (simp add: nat_mult_distrib)
  show ?thesis
    using False assms P
    by (simp add: get_papers_def valid_query_def filters_ignore_page sort_rows_ignore_page
        page_response_def Let_def iloc_def n length_sort_rows total_pages_ceiling)
qed

text \<open>
  C6. When the query is valid (page size between 1 and 100) and the filters give \<open>matching\<close>,
  every page from 1 on is answered without an error, with the total \<open>T\<close> the number of
  matching rows and the page count the ceiling of \<open>T / P\<close>; the pages 1 to the page count,
  one after the other, are the sorted matching rows, so their lengths add up to \<open>T\<close>; and
  the page after the last is empty.
\<close>

theorem C6_pagination:
  assumes "valid_query q" and "apply_filters env q df = Inr matching"
  shows "\<exists>resp.
     (\<forall>pg\<ge>1. get_papers env (q\<lparr>page := pg\<rparr>) df = Inr (resp pg)
              \<and> resp_total (resp pg) = int (length matching)
              \<and> resp_total_pages (resp pg) = \<lceil>real (length matching) / real_of_int (per_page q)\<rceil>)
     \<and> concat (map (\<lambda>k. resp_papers (resp (int k)))
                 [1..<Suc (nat \<lceil>real (length matching) / real_of_int (per_page q)\<rceil>)])
         = map (to_paper (has_score df) (has_reasoning df)) (sort_rows q (has_score df) matching)
     \<and> (\<Sum>k\<leftarrow>[1..<Suc (nat \<lceil>real (length matching) / real_of_int (per_page q)\<rceil>)].
           length (resp_papers (resp (int k)))) = length matching
     \<and> resp_papers (resp (\<lceil>real (length matching) / real_of_int (per_page q)\<rceil> + 1)) = []"
proof -
  define p where "p = nat (per_page q)"
  define sorted_rows where "sorted_rows = sort_rows q (has_score df) matching"
  define tp where "tp = \<lceil>real (length matching) / real_of_int (per_page q)\<rceil>"
  define resp where "resp = page_response q df matching"
  have P: "0 < per_page q" using assms(1) by (simp add: valid_query_def)
  have len: "length sorted_rows = length matching"
    by (simp add: sorted_rows_def length_sort_rows)
  have tp_div: "tp = (int (length matching) + per_page q - 1) div per_page q"
    using P by (simp add: tp_def total_pages_ceiling)
  have tp0: "0 \<le> tp"
    unfolding tp_div using P by (simp add: pos_imp_zdiv_nonneg_iff)
  have cover: "length sorted_rows \<le> nat tp * p"
  proof -
    have "int (length matching) \<le> tp * per_page q"
      unfolding tp_div using P by (rule total_pages_cover)
    also have "\<dots> = int (nat tp * p)"
      using tp0 P by (simp add: p_def)
    finally have "int (length matching) \<le> int (nat tp * p)" .
    then have "length matching \<le> nat tp * p" by (simp only: of_nat_le_iff)
    then show ?thesis using len by simp
  qed
  have papers: "resp_papers (resp (int k)) =
      map (to_paper (has_score df) (has_reasoning df)) (take p (drop ((k - 1) * p) sorted_rows))" for k
  proof -
    have "nat (int k - 1) = k - 1" by linarith
    then show ?thesis
      by (simp add: resp_def page_response_def p_def sorted_rows_def)
  qed
  have a: "\<forall>pg\<ge>1. get_papers env (q\<lparr>page := pg\<rparr>) df = Inr (resp pg)
              \<and> resp_total (resp pg) = int (length matching)
              \<and> resp_total_pages (resp pg) = tp"
    using assms by (simp add: get_papers_page resp_def tp_def) (simp add: page_response_def)
  have shift: "map (\<lambda>k. f (k - 1)) [1..<Suc n] = map f [0..<n]" for f :: "nat \<Rightarrow> 'b" and n
    by (induction n) simp_all
  have b: "concat (map (\<lambda>k. resp_papers (resp (int k))) [1..<Suc (nat tp)])
         = map (to_paper (has_score df) (has_reasoning df)) sorted_rows"
  proof -
    have "concat (map (\<lambda>k. resp_papers (resp (int k))) [1..<Suc (nat tp)])
        = concat (map (\<lambda>k. map (to_paper (has_score df) (has_reasoning df))
                              (take p (drop ((k - 1) * p) sorted_rows))) [1..<Suc (nat tp)])"
      by (simp only: papers)
    also have "\<dots> = concat (map (\<lambda>k. map (to_paper (has_score df) (has_reasoning df))
                              (take p (drop (k * p) sorted_rows))) [0..<nat tp])"
      using shift [of "\<lambda>k. map (to_paper (has_score df) (has_reasoning df))
                              (take p (drop (k * p) sorted_rows))" "nat tp"]
      by simp
    also have "\<dots> = map (to_paper (has_score df) (has_reasoning df))
                       (concat (map (\<lambda>k. take p (drop (k * p) sorted_rows)) [0..<nat tp]))"
      by (simp add: map_concat comp_def)
    also have "\<dots> = map (to_paper (has_score df) (has_reasoning df)) sorted_rows"
      using cover by (simp add: concat_pages)
    finally show ?thesis .
  qed
  have c: "(\<Sum>k\<leftarrow>[1..<Suc (nat tp)]. length (resp_papers (resp (int k)))) = length matching"
  proof -
    have "length (concat (map (\<lambda>k. resp_papers (resp (int k))) [1..<Suc (nat tp)])) = length matching"
      unfolding b using len by simp
    then show ?thesis
      by (simp add: length_concat comp_def)
  qed
  have d: "resp_papers (resp (tp + 1)) = []"
  proof -
    have "tp + 1 = int (Suc (nat tp))" using tp0 by simp
    then have "resp_papers (resp (tp + 1)) =
        map (to_paper (has_score df) (has_reasoning df)) (take p (drop (nat tp * p) sorted_rows))"
      using papers [of "Suc (nat tp)"] by (simp add: add.commute)
    then show ?thesis using cover by simp
  qed
  from a b c d show ?thesis
    unfolding tp_def sorted_rows_def by blast
qed

lemma set_iloc: "set (iloc a b xs) \<subseteq> set xs"
  by (auto simp: iloc_def dest: in_set_takeD in_set_dropD)

lemma min_score_filter_scored:
  "r \<in> set (min_score_filter True (Some m) rs) \<Longrightarrow> col_score r \<noteq> NaN"
  by (auto simp: min_score_filter_def py_le_def)

lemma max_score_filter_scored:
  "r \<in> set (max_score_filter True (Some m) rs) \<Longrightarrow> col_score r \<noteq> NaN"
  by (auto simp: max_score_filter_def py_le_def)

lemma min_score_filter_subset: "set (min_score_filter sc b rs) \<subseteq> set rs"
  by (auto simp: min_score_filter_def split: option.splits)

lemma max_score_filter_subset: "set (max_score_filter sc b rs) \<subseteq> set rs"
  by (auto simp: max_score_filter_def split: option.splits)

lemma apply_filters_scored:
  assumes "has_score df" and "min_score q \<noteq> None \<or> max_score q \<noteq> None"
    and "apply_filters env q df = Inr matching" and "r \<in> set matching"
  shows "col_score r \<noteq> NaN"
proof -
  from assms(3) obtain rs2 where
    m: "matching = max_score_filter (has_score df) (max_score q)
                     (min_score_filter (has_score df) (min_score q) rs2)"
    by (auto simp: apply_filters_def split: sum.splits)
  show ?thesis
  proof (cases "max_score q")
    case (Some b)
    with m assms(1,4) show ?thesis by (auto dest: max_score_filter_scored)
  next
    case None
    with assms(2) obtain a where a: "min_score q = Some a" by auto
    from m assms(4) have "r \<in> set (min_score_filter (has_score df) (min_score q) rs2)"
      using max_score_filter_subset by blast
    with a assms(1) show ?thesis by (auto dest: min_score_filter_scored)
  qed
qed

lemma filters_without_score_column:
  "\<not> has_score df \<Longrightarrow>
   apply_filters env (q\<lparr>min_score := None, max_score := None\<rparr>) df = apply_filters env q df"
  by (simp add: apply_filters_def min_score_filter_def max_score_filter_def
      split: sum.splits option.splits)

text \<open>
  C7, as the code has it. When the loaded snapshot has a score column and a lower or an upper
  score bound is given, every paper returned has a score: the rows whose score cell is empty
  are excluded. When the snapshot has no score column the two bounds are not applied: the
  answer is that of the same query without them.
\<close>

theorem C7_score_bounds:
  "(has_score df \<and> (min_score q \<noteq> None \<or> max_score q \<noteq> None) \<and> get_papers env q df = Inr r
      \<longrightarrow> (\<forall>p\<in>set (resp_papers r). p_score p \<noteq> None))
   \<and> (\<not> has_score df \<and> valid_query q
      \<longrightarrow> get_papers env q df = get_papers env (q\<lparr>min_score := None, max_score := None\<rparr>) df)"
proof (intro conjI impI ballI)
  fix p
  assume a: "has_score df \<and> (min_score q \<noteq> None \<or> max_score q \<noteq> None) \<and> get_papers env q df = Inr r"
    and p: "p \<in> set (resp_papers r)"
  show "p_score p \<noteq> None"
  proof (cases "rows df = []")
    case True
    with a p show ?thesis
      by (auto simp: get_papers_def split: if_splits)
  next
    case False
    with a obtain matching where m: "apply_filters env q df = Inr matching"
      and r: "resp_papers r = map (to_paper (has_score df) (has_reasoning df))
                (iloc ((page q - 1) * per_page q) ((page q - 1) * per_page q + per_page q)
                   (sort_rows q (has_score df) matching))"
      by (auto simp: get_papers_def Let_def split: if_splits sum.splits)
    from p r obtain x where x: "x \<in> set (sort_rows q (has_score df) matching)"
      and px: "p = to_paper (has_score df) (has_reasoning df) x"
      using set_iloc by fastforce
    from x have "x \<in> set matching" by (simp add: set_sort_rows)
    with a m have "col_score x \<noteq> NaN" by (auto dest: apply_filters_scored)
    with a px show ?thesis by (simp add: to_paper_def)
  qed
next
  assume "\<not> has_score df \<and> valid_query q"
  then show "get_papers env q df = get_papers env (q\<lparr>min_score := None, max_score := None\<rparr>) df"
    by (simp add: get_papers_def valid_query_def score_bound_ok_def filters_without_score_column
        sort_rows_def Let_def split: sum.splits sort_column.splits)
qed

lemma listing_sorted:
  "sort_rows title_query True (rows listing_frame) = rows listing_frame"
  by (simp add: sort_rows_def title_query_def listing_frame_def sort_values_def sort_by_le_def
      scored_row_def paper_row_def text_key_le_def)

text \<open>
  C7 as stated fails: from a file without score column, a query with a lower bound of 5
  returns both papers, neither of which has a score.
\<close>

theorem C7_counterexample:
  "map p_id (papers_of (get_papers plain_env (title_query\<lparr>min_score := Some 5\<rparr>) base_frame)) = [''a'', ''b'']
   \<and> map p_score (papers_of (get_papers plain_env (title_query\<lparr>min_score := Some 5\<rparr>) base_frame)) = [None, None]"
  by (simp add: papers_of_def get_papers_def valid_query_def score_bound_ok_def title_query_def
      base_frame_def apply_filters_def search_filter_def category_filter_def min_score_filter_def
      max_score_filter_def sort_rows_def sort_values_def sort_by_le_def text_key_le_def paper_row_def
      iloc_def to_paper_def str_cell_def Let_def)

lemma listing_filters:
  "apply_filters plain_env (title_query\<lparr>page := pg\<rparr>) listing_frame = Inr (rows listing_frame)"
  by (simp add: apply_filters_def title_query_def search_filter_def category_filter_def
      min_score_filter_def max_score_filter_def)

text \<open>Five papers, two to a page: pages of 2, 2 and 1 papers, three pages, and an empty page 4.\<close>

theorem C6_pagination_witness:
  "valid_query title_query
   \<and> apply_filters plain_env title_query listing_frame = Inr (rows listing_frame)
   \<and> length (rows listing_frame) = 5 \<and> per_page title_query = 2
   \<and> map p_id (papers_of (get_papers plain_env (title_query\<lparr>page := 1\<rparr>) listing_frame)) = [''a'', ''b'']
   \<and> map p_id (papers_of (get_papers plain_env (title_query\<lparr>page := 2\<rparr>) listing_frame)) = [''c'', ''d'']
   \<and> map p_id (papers_of (get_papers plain_env (title_query\<lparr>page := 3\<rparr>) listing_frame)) = [''e'']
   \<and> get_papers plain_env (title_query\<lparr>page := 4\<rparr>) listing_frame
       = Inr \<lparr>resp_papers = [], resp_total = 5, resp_page = 4, resp_per_page = 2, resp_total_pages = 3\<rparr>"
proof -
  have h1: "valid_query title_query"
    by (simp add: valid_query_def title_query_def score_bound_ok_def)
  have h2: "apply_filters plain_env title_query listing_frame = Inr (rows listing_frame)"
    using listing_filters [of 1] by (simp add: title_query_def)
  have n: "length (rows listing_frame) = 5" "per_page title_query = 2"
    by (simp_all add: listing_frame_def title_query_def)
  have tp: "\<lceil>real (length (rows listing_frame)) / real_of_int (per_page title_query)\<rceil> = 3"
    unfolding n by simp
  from C6_pagination [OF h1 h2] obtain resp where
    r: "\<forall>pg\<ge>1. get_papers plain_env (title_query\<lparr>page := pg\<rparr>) listing_frame = Inr (resp pg)
              \<and> resp_total (resp pg) = int (length (rows listing_frame))
              \<and> resp_total_pages (resp pg)
                  = \<lceil>real (length (rows listing_frame)) / real_of_int (per_page title_query)\<rceil>"
    and e: "resp_papers (resp (\<lceil>real (length (rows listing_frame)) / real_of_int (per_page title_query)\<rceil> + 1)) = []"
    by blast
  from r have r4: "get_papers plain_env (title_query\<lparr>page := 4\<rparr>) listing_frame = Inr (resp 4)"
    "resp_total (resp 4) = 5" "resp_total_pages (resp 4) = 3"
    unfolding tp n by simp_all
  from e have e4: "resp_papers (resp 4) = []"
    unfolding tp by simp
  have "resp_page (resp 4) = 4 \<and> resp_per_page (resp 4) = 2"
    using r4(1) get_papers_page [OF h1 h2, of 4]
    by (auto simp: page_response_def title_query_def)
  with r4 e4 have p4: "get_papers plain_env (title_query\<lparr>page := 4\<rparr>) listing_frame
       = Inr \<lparr>resp_papers = [], resp_total = 5, resp_page = 4, resp_per_page = 2, resp_total_pages = 3\<rparr>"
    by simp
  have hs: "has_score listing_frame = True" "has_reasoning listing_frame = True"
    by (simp_all add: listing_frame_def)
  have gp: "get_papers plain_env (title_query\<lparr>page := int (Suc k)\<rparr>) listing_frame
      = Inr (page_response title_query listing_frame (rows listing_frame) (int (Suc k)))" for k
    by (rule get_papers_page [OF h1 h2]) simp
  have pages: "map p_id (papers_of (get_papers plain_env (title_query\<lparr>page := int (Suc k)\<rparr>) listing_frame))
      = map (\<lambda>r. str_cell (col_id r)) (take 2 (drop (k * 2) (rows listing_frame)))" for k
    unfolding gp
    by (simp add: papers_of_def page_response_def hs listing_sorted n(2) to_paper_def comp_def)
  have p1: "map p_id (papers_of (get_papers plain_env (title_query\<lparr>page := 1\<rparr>) listing_frame)) = [''a'', ''b'']"
    using pages [of 0] by (simp add: listing_frame_def scored_row_def paper_row_def str_cell_def)
  have p2: "map p_id (papers_of (get_papers plain_env (title_query\<lparr>page := 2\<rparr>) listing_frame)) = [''c'', ''d'']"
    using pages [of 1] by (simp add: listing_frame_def scored_row_def paper_row_def str_cell_def)
  have p3: "map p_id (papers_of (get_papers plain_env (title_query\<lparr>page := 3\<rparr>) listing_frame)) = [''e'']"
    using pages [of 2] by (simp add: listing_frame_def scored_row_def paper_row_def str_cell_def)
  from h1 h2 n p1 p2 p3 p4 show ?thesis by simp
qed

text \<open>
  With a lower bound of 5 the scored listing returns the papers scored 7 and 9; on the file
  without score column an upper bound changes nothing.
\<close>

theorem C7_score_bounds_witness:
  "has_score listing_frame
   \<and> min_score (title_query\<lparr>per_page := 10, min_score := Some 5\<rparr>) \<noteq> None
   \<and> map p_id (papers_of (get_papers plain_env (title_query\<lparr>per_page := 10, min_score := Some 5\<rparr>) listing_frame))
       = [''a'', ''d'']
   \<and> map p_score (papers_of (get_papers plain_env (title_query\<lparr>per_page := 10, min_score := Some 5\<rparr>) listing_frame))
       = [Some (Fin 7), Some (Fin 9)]
   \<and> \<not> has_score base_frame
   \<and> valid_query (title_query\<lparr>max_score := Some 5\<rparr>)
   \<and> get_papers plain_env (title_query\<lparr>max_score := Some 5\<rparr>) base_frame
       = get_papers plain_env title_query base_frame"
proof -
  have g: "get_papers plain_env (title_query\<lparr>per_page := 10, min_score := Some 5\<rparr>) listing_frame
      = Inr \<lparr>resp_papers = map (to_paper True True) [scored_row ''a'' (Fin 7), scored_row ''d'' (Fin 9)],
             resp_total = 2, resp_page = 1, resp_per_page = 10, resp_total_pages = 1\<rparr>"
    by (simp add: get_papers_def valid_query_def score_bound_ok_def title_query_def
      listing_frame_def apply_filters_def search_filter_def category_filter_def min_score_filter_def
      max_score_filter_def sort_rows_def sort_values_def sort_by_le_def text_key_le_def paper_row_def
      scored_row_def py_le_def iloc_def Let_def)
  have h1: "has_score listing_frame" by (simp add: listing_frame_def)
  have h2: "min_score (title_query\<lparr>per_page := 10, min_score := Some 5\<rparr>) \<noteq> None" by simp
  have h3: "\<not> has_score base_frame" by (simp add: base_frame_def)
  have h4: "valid_query (title_query\<lparr>max_score := Some 5\<rparr>)"
    by (simp add: valid_query_def title_query_def score_bound_ok_def)
  have a: "\<forall>p\<in>set (map (to_paper True True) [scored_row ''a'' (Fin 7), scored_row ''d'' (Fin 9)]).
             p_score p \<noteq> None"
    using C7_score_bounds [of listing_frame "title_query\<lparr>per_page := 10, min_score := Some 5\<rparr>" plain_env
        "\<lparr>resp_papers = map (to_paper True True) [scored_row ''a'' (Fin 7), scored_row ''d'' (Fin 9)],
             resp_total = 2, resp_page = 1, resp_per_page = 10, resp_total_pages = 1\<rparr>"] g h1 h2
    by simp
  have b: "get_papers plain_env (title_query\<lparr>max_score := Some 5\<rparr>) base_frame
       = get_papers plain_env title_query base_frame"
    using C7_score_bounds [of base_frame "title_query\<lparr>max_score := Some 5\<rparr>" plain_env] h3 h4
    by (simp add: title_query_def)
  from a g h1 h2 h3 h4 b show ?thesis
    by (simp add: papers_of_def to_paper_def scored_row_def paper_row_def str_cell_def)
qed

end
